theory Spec2Isabelle
  imports Complex_Main
begin

section \<open>MemmapTensor: a tensor interface over a memory-mapped temporary file\<close>

text \<open>
  A shallow embedding of \<^verbatim>\<open>torchrl/data/tensordict/memmap.py\<close>. A handle is a record of
  the instance attributes, the file system is an explicit \<open>world\<close> that every operation
  takes and returns, and every \<^verbatim>\<open>raise\<close> is an \<open>Inl\<close> result.
\<close>

subsection \<open>Exceptions\<close>

text \<open>
  The Python exception classes the program raises or lets through. \<open>Outside_model\<close> is
  not a Python exception: it marks a call into the numeric library whose outcome this
  model does not describe (broadcasting, conversion between dtypes, coercion of foreign
  objects). A result \<open>Outside_model\<close> says nothing about what the program does.
\<close>

datatype error =
    TypeError | RuntimeError | NotImplementedError | AttributeError
  | KeyError | FileNotFoundError | ValueError | IndexError
  | Outside_model

subsection \<open>The libraries, as far as the program uses them\<close>

type_synonym elem = int
type_synonym path = nat

datatype device = CPU | CUDA nat

datatype dtype =
    T_bool | T_uint8 | T_int8 | T_int16 | T_int32 | T_int64
  | T_float16 | T_float32 | T_float64 | T_complex64 | T_complex128 | T_bfloat16

datatype np_dtype =
    N_bool | N_uint8 | N_int8 | N_int16 | N_int32 | N_int64
  | N_float16 | N_float32 | N_float64 | N_complex64 | N_complex128

text \<open>
  \<^verbatim>\<open>torch_to_numpy_dtype_dict\<close> is imported from \<^verbatim>\<open>torchrl.data.utils\<close>; the
  functions that read it take it as the parameter \<open>D\<close>.
\<close>

type_synonym dtype_dict = "dtype \<rightharpoonup> np_dtype"

text \<open>The dtype of \<^verbatim>\<open>torch.as_tensor(a)\<close> for a numpy array \<open>a\<close>.\<close>

fun torch_of_numpy :: "np_dtype \<Rightarrow> dtype" where
  "torch_of_numpy N_bool = T_bool"
| "torch_of_numpy N_uint8 = T_uint8"
| "torch_of_numpy N_int8 = T_int8"
| "torch_of_numpy N_int16 = T_int16"
| "torch_of_numpy N_int32 = T_int32"
| "torch_of_numpy N_int64 = T_int64"
| "torch_of_numpy N_float16 = T_float16"
| "torch_of_numpy N_float32 = T_float32"
| "torch_of_numpy N_float64 = T_float64"
| "torch_of_numpy N_complex64 = T_complex64"
| "torch_of_numpy N_complex128 = T_complex128"

text \<open>The dtype of \<^verbatim>\<open>t.numpy()\<close>; numpy has no bfloat16.\<close>

fun numpy_of_torch :: "dtype \<Rightarrow> np_dtype option" where
  "numpy_of_torch T_bool = Some N_bool"
| "numpy_of_torch T_uint8 = Some N_uint8"
| "numpy_of_torch T_int8 = Some N_int8"
| "numpy_of_torch T_int16 = Some N_int16"
| "numpy_of_torch T_int32 = Some N_int32"
| "numpy_of_torch T_int64 = Some N_int64"
| "numpy_of_torch T_float16 = Some N_float16"
| "numpy_of_torch T_float32 = Some N_float32"
| "numpy_of_torch T_float64 = Some N_float64"
| "numpy_of_torch T_complex64 = Some N_complex64"
| "numpy_of_torch T_complex128 = Some N_complex128"
| "numpy_of_torch T_bfloat16 = None"

text \<open>
  A tensor or array with storage of its own: the elements in row-major order, and the
  metadata. Element values are integers; rounding and NaN are outside the model.
\<close>

record tensor =
  t_data :: "elem list"
  t_shape :: "nat list"
  t_dtype :: dtype
  t_device :: device
  requires_grad :: bool

record ndarray =
  a_data :: "elem list"
  a_shape :: "nat list"
  a_dtype :: np_dtype

definition wf_tensor :: "tensor \<Rightarrow> bool" where
  "wf_tensor t = (length (t_data t) = prod_list (t_shape t))"

text \<open>
  The file system. A temporary name is never used twice, so a file is identified with
  the name it was created under: \<open>present\<close> holds the names still in the directory and
  \<open>content\<close> the elements of every file, which outlive the unlinking of the name as long
  as a mapping is open. \<open>next_obj\<close> numbers the \<^verbatim>\<open>np.memmap\<close> objects, for \<^verbatim>\<open>is\<close>.
\<close>

record world =
  present :: "path set"
  content :: "path \<Rightarrow> elem list"
  next_tmp :: nat
  next_obj :: nat

text \<open>
  An array that lives in a mapped file: \<open>prod_list v_shape\<close> elements of \<open>v_file\<close> from
  \<open>v_offset\<close> on. Indexing by an integer or by \<^verbatim>\<open>[:]\<close> gives such a view again.
\<close>

record view =
  v_file :: path
  v_offset :: nat
  v_shape :: "nat list"
  v_dtype :: np_dtype

datatype mmap_mode = Mode_r | Mode_rplus

record np_memmap =
  mm_id :: nat
  mm_mode :: mmap_mode
  mm_view :: view

definition view_read :: "world \<Rightarrow> view \<Rightarrow> elem list" where
  "view_read w v = take (prod_list (v_shape v)) (drop (v_offset v) (content w (v_file v)))"

definition view_write :: "view \<Rightarrow> elem list \<Rightarrow> world \<Rightarrow> world" where
  "view_write v xs w =
     (let c = content w (v_file v)
      in w\<lparr>content := (content w)
            (v_file v := take (v_offset v) c @ xs @ drop (v_offset v + length xs) c)\<rparr>)"

text \<open>
  The indices of the model: an integer on the first dimension (negative ones count from
  the end) and the full slice \<^verbatim>\<open>[:]\<close>. Both raise IndexError on a 0-dimensional array.
\<close>

datatype index = Int_idx int | Slice_all

definition index_view :: "view \<Rightarrow> index \<Rightarrow> error + view" where
  "index_view v idx =
     (case v_shape v of
        [] \<Rightarrow> Inl IndexError
      | d # ds \<Rightarrow>
          (case idx of
             Slice_all \<Rightarrow> Inr v
           | Int_idx i \<Rightarrow>
               if - int d \<le> i \<and> i < int d
               then Inr (v\<lparr>v_offset := v_offset v + nat (if i < 0 then i + int d else i) * prod_list ds,
                           v_shape := ds\<rparr>)
               else Inl IndexError))"

definition index_tensor :: "tensor \<Rightarrow> index \<Rightarrow> error + tensor" where
  "index_tensor t idx =
     (case t_shape t of
        [] \<Rightarrow> Inl IndexError
      | d # ds \<Rightarrow>
          (case idx of
             Slice_all \<Rightarrow> Inr t
           | Int_idx i \<Rightarrow>
               if - int d \<le> i \<and> i < int d
               then Inr (t\<lparr>t_data := take (prod_list ds)
                                       (drop (nat (if i < 0 then i + int d else i) * prod_list ds) (t_data t)),
                           t_shape := ds\<rparr>)
               else Inl IndexError))"

text \<open>
  \<^verbatim>\<open>tempfile.NamedTemporaryFile(delete=d)\<close>: a new empty file under a new name. The
  wrapper and its \<^verbatim>\<open>_closer\<close> each hold the name and the delete flag; the program
  writes to all four.
\<close>

record tmpfile =
  tf_name :: path
  tf_delete :: bool
  closer_name :: path
  closer_delete :: bool
  close_called :: bool

definition NamedTemporaryFile :: "bool \<Rightarrow> world \<Rightarrow> tmpfile \<times> world" where
  "NamedTemporaryFile d w =
     (let n = next_tmp w
      in (\<lparr>tf_name = n, tf_delete = d, closer_name = n, closer_delete = d, close_called = False\<rparr>,
          w\<lparr>present := insert n (present w), content := (content w)(n := []), next_tmp := Suc n\<rparr>))"

text \<open>
  \<^verbatim>\<open>file.close()\<close>: the closer runs once, and unlinks its name when its delete flag is
  set; unlinking a name that is gone raises.
\<close>

definition tmpfile_close :: "tmpfile \<Rightarrow> world \<Rightarrow> (error + unit) \<times> tmpfile \<times> world" where
  "tmpfile_close f w =
     (if close_called f then (Inr (), f, w)
      else if closer_delete f
      then (if closer_name f \<in> present w
            then (Inr (), f\<lparr>close_called := True\<rparr>, w\<lparr>present := present w - {closer_name f}\<rparr>)
            else (Inl FileNotFoundError, f\<lparr>close_called := True\<rparr>, w))
      else (Inr (), f\<lparr>close_called := True\<rparr>, w))"

text \<open>
  \<^verbatim>\<open>np.memmap(filename, dtype, mode, shape)\<close>: the file must exist; mode \<^verbatim>\<open>r+\<close> extends
  a file that is too short with zeros, mode \<^verbatim>\<open>r\<close> refuses it. For an array of no
  elements mode \<^verbatim>\<open>r+\<close> pads an empty file with one byte, which is no element, and
  maps it; whether mode \<^verbatim>\<open>r\<close> maps the file depends on that byte, which a file as a
  list of elements does not record.
\<close>

definition np_memmap_open ::
  "path \<Rightarrow> np_dtype \<Rightarrow> mmap_mode \<Rightarrow> nat list \<Rightarrow> world \<Rightarrow> (error + np_memmap) \<times> world" where
  "np_memmap_open fn dt md shp w =
     (if fn \<notin> present w then (Inl FileNotFoundError, w)
      else if prod_list shp = 0
      then (case md of
              Mode_r \<Rightarrow> (Inl Outside_model, w)
            | Mode_rplus \<Rightarrow>
                (Inr \<lparr>mm_id = next_obj w, mm_mode = md,
                      mm_view = \<lparr>v_file = fn, v_offset = 0, v_shape = shp, v_dtype = dt\<rparr>\<rparr>,
                 w\<lparr>next_obj := Suc (next_obj w)\<rparr>))
      else
        let c = content w fn;
            obj = \<lparr>mm_id = next_obj w, mm_mode = md,
                   mm_view = \<lparr>v_file = fn, v_offset = 0, v_shape = shp, v_dtype = dt\<rparr>\<rparr>
        in if length c < prod_list shp
           then (case md of
                   Mode_r \<Rightarrow> (Inl ValueError, w)
                 | Mode_rplus \<Rightarrow>
                     (Inr obj, w\<lparr>content := (content w)(fn := c @ replicate (prod_list shp - length c) 0),
                                next_obj := Suc (next_obj w)\<rparr>))
           else (Inr obj, w\<lparr>next_obj := Suc (next_obj w)\<rparr>))"

text \<open>
  \<^verbatim>\<open>a[idx] = np_array\<close> on a mapped array. A read-only mapping refuses the write. A value
  of another shape or dtype is broadcast or converted by numpy, which the model leaves out.
\<close>

definition ndarray_setitem ::
  "np_memmap \<Rightarrow> index \<Rightarrow> ndarray \<Rightarrow> world \<Rightarrow> (error + unit) \<times> world" where
  "ndarray_setitem mm idx a w =
     (case index_view (mm_view mm) idx of
        Inl e \<Rightarrow> (Inl e, w)
      | Inr sub \<Rightarrow>
          if mm_mode mm = Mode_r then (Inl ValueError, w)
          else if a_shape a = v_shape sub \<and> a_dtype a = v_dtype sub
                  \<and> length (a_data a) = prod_list (a_shape a)
          then (Inr (), view_write sub (a_data a) w)
          else (Inl Outside_model, w))"

text \<open>\<^verbatim>\<open>t.cpu().numpy()\<close>: refused for a tensor that requires grad, and for bfloat16.\<close>

definition tensor_numpy :: "tensor \<Rightarrow> error + ndarray" where
  "tensor_numpy t =
     (if requires_grad t then Inl RuntimeError
      else case numpy_of_torch (t_dtype t) of
             None \<Rightarrow> Inl TypeError
           | Some nd \<Rightarrow> Inr \<lparr>a_data = t_data t, a_shape = t_shape t, a_dtype = nd\<rparr>)"

text \<open>
  A tensor as the program holds it: either with storage of its own, or sharing the
  storage of a mapped array. \<^verbatim>\<open>torch.as_tensor(a, device=dev)\<close> shares the memory of
  the numpy array \<open>a\<close> when \<open>dev\<close> is the CPU, and copies it to the device otherwise.
\<close>

datatype tensor_ref = Fresh tensor | Mapped view

definition as_tensor :: "world \<Rightarrow> view \<Rightarrow> device \<Rightarrow> tensor_ref" where
  "as_tensor w v dev =
     (if dev = CPU then Mapped v
      else Fresh \<lparr>t_data = view_read w v, t_shape = v_shape v,
                  t_dtype = torch_of_numpy (v_dtype v), t_device = dev, requires_grad = False\<rparr>)"

text \<open>The tensor that a reference denotes in a given world.\<close>

definition tensor_value :: "world \<Rightarrow> tensor_ref \<Rightarrow> tensor" where
  "tensor_value w r =
     (case r of
        Fresh t \<Rightarrow> t
      | Mapped v \<Rightarrow> \<lparr>t_data = view_read w v, t_shape = v_shape v,
                      t_dtype = torch_of_numpy (v_dtype v), t_device = CPU, requires_grad = False\<rparr>)"

text \<open>\<^verbatim>\<open>t[idx]\<close> on a tensor: a view of the same storage.\<close>

definition tensor_getitem :: "tensor_ref \<Rightarrow> index \<Rightarrow> error + tensor_ref" where
  "tensor_getitem r idx =
     (case r of
        Fresh t \<Rightarrow> (case index_tensor t idx of Inl e \<Rightarrow> Inl e | Inr s \<Rightarrow> Inr (Fresh s))
      | Mapped v \<Rightarrow> (case index_view v idx of Inl e \<Rightarrow> Inl e | Inr s \<Rightarrow> Inr (Mapped s)))"

text \<open>
  \<^verbatim>\<open>r[idx] = value\<close> where \<open>r\<close> is a temporary: the write goes to the storage of \<open>r\<close>.
  For a mapped tensor that is the file; for a tensor with storage of its own the
  storage is dropped with the temporary, and the world stays as it is. A value of
  another shape, dtype or device is broadcast, converted or moved by torch, which the
  model leaves out.
\<close>

definition tensor_setitem ::
  "tensor_ref \<Rightarrow> index \<Rightarrow> tensor \<Rightarrow> world \<Rightarrow> (error + unit) \<times> world" where
  "tensor_setitem r idx val w =
     (case r of
        Mapped v \<Rightarrow>
          (case index_view v idx of
             Inl e \<Rightarrow> (Inl e, w)
           | Inr sub \<Rightarrow>
               if t_shape val = v_shape sub \<and> t_dtype val = torch_of_numpy (v_dtype sub)
                  \<and> t_device val = CPU \<and> wf_tensor val
               then (Inr (), view_write sub (t_data val) w)
               else (Inl Outside_model, w))
      | Fresh t \<Rightarrow>
          (case index_tensor t idx of
             Inl e \<Rightarrow> (Inl e, w)
           | Inr sub \<Rightarrow>
               if t_shape val = t_shape sub \<and> t_dtype val = t_dtype sub
                  \<and> t_device val = t_device sub \<and> wf_tensor val
               then (Inr (), w)
               else (Inl Outside_model, w)))"

subsection \<open>The handle\<close>

text \<open>
  The instance dictionary of a MemmapTensor, one field for each attribute that
  \<^verbatim>\<open>__init__\<close> sets (the leading underscores dropped; \<open>file_obj\<close> is the attribute
  \<^verbatim>\<open>file\<close>). A state captured by
  \<^verbatim>\<open>__getstate__\<close> is a copy of this dictionary and has the same type.
\<close>

record MemmapTensor =
  idx :: "index option"
  memmap_array :: "np_memmap option"
  file_obj :: "tmpfile option"
  filename :: path
  device :: device
  shape :: "nat list"
  transfer_ownership :: bool
  np_shape :: "nat list"
  dtype :: dtype
  tensor_dir :: "string list"
  ndim :: nat
  numel :: nat
  mode :: mmap_mode
  has_ownership :: bool

text \<open>The Python values that reach the type tests of the program.\<close>

datatype pyval =
    PTensor tensor | PMemmap MemmapTensor | PNdarray ndarray
  | PFloat real | PInt int | PBool bool | PStr string | PNone

text \<open>
  \<^verbatim>\<open>dir(t)\<close> for a tensor \<open>t\<close>, cut down to the names this program mentions, and
  \<^verbatim>\<open>m.__dir__()\<close> for a MemmapTensor \<open>m\<close>: its instance attributes, the members of the
  class and those of \<^verbatim>\<open>object\<close>.
\<close>

definition torch_tensor_dir :: "string list" where
  "torch_tensor_dir =
     [''requires_grad'', ''device'', ''shape'', ''dtype'', ''ndimension'', ''numel'',
      ''detach'', ''cpu'', ''numpy'', ''clone'', ''to'', ''__dir__'', ''__array__'']"

definition memmap_dir :: "string list" where
  "memmap_dir =
     [''idx'', ''_memmap_array'', ''file'', ''filename'', ''_device'', ''_shape'',
      ''transfer_ownership'', ''np_shape'', ''_dtype'', ''_tensor_dir'', ''_ndim'', ''_numel'',
      ''mode'', ''_has_ownership'',
      ''__init__'', ''_get_memmap_array'', ''_set_memmap_array'', ''memmap_array'',
      ''_save_item'', ''_copy_item'', ''_load_item'', ''_np_to_tensor'', ''__torch_function__'',
      ''_tensor'', ''ndimension'', ''numel'', ''clone'', ''contiguous'', ''device'', ''dtype'',
      ''shape'', ''cpu'', ''numpy'', ''copy_'', ''set_transfer_ownership'', ''__del__'',
      ''__eq__'', ''__getattr__'', ''is_shared'', ''__add__'', ''__truediv__'', ''__neg__'',
      ''__sub__'', ''__matmul__'', ''__mul__'', ''__pow__'', ''__repr__'', ''__getitem__'',
      ''__setitem__'', ''__setstate__'', ''__getstate__'', ''__reduce__'', ''to'', ''unbind'',
      ''__module__'', ''__doc__'', ''__dict__'', ''__weakref__'', ''__hash__'', ''__class__'',
      ''__new__'', ''__str__'', ''__dir__'', ''__getattribute__'', ''__setattr__'',
      ''__delattr__'', ''__ne__'', ''__lt__'', ''__le__'', ''__gt__'', ''__ge__'',
      ''__reduce_ex__'', ''__format__'', ''__sizeof__'', ''__subclasshook__'',
      ''__init_subclass__'']"

subsection \<open>The mapping\<close>

text \<open>The property \<^verbatim>\<open>memmap_array\<close>: the mapping is opened on first use and kept.\<close>

definition get_memmap_array ::
  "dtype_dict \<Rightarrow> MemmapTensor \<Rightarrow> world \<Rightarrow> (error + np_memmap) \<times> MemmapTensor \<times> world" where
  "get_memmap_array D self w =
     (case memmap_array self of
        Some mm \<Rightarrow> (Inr mm, self, w)
      | None \<Rightarrow>
          (case D (dtype self) of
             None \<Rightarrow> (Inl KeyError, self, w)
           | Some nd \<Rightarrow>
               (case np_memmap_open (filename self) nd (mode self) (np_shape self) w of
                  (Inl e, w') \<Rightarrow> (Inl e, self, w')
                | (Inr mm, w') \<Rightarrow> (Inr mm, self\<lparr>memmap_array := Some mm\<rparr>, w'))))"

definition set_memmap_array :: "MemmapTensor \<Rightarrow> np_memmap option \<Rightarrow> MemmapTensor" where
  "set_memmap_array self v = self\<lparr>memmap_array := v\<rparr>"

text \<open>
  \<^verbatim>\<open>_save_item\<close>. A tensor is converted to a numpy array; any other value is handed to
  numpy as it is, which for a value that is not an array means a coercion the model
  leaves out.
\<close>

definition save_item ::
  "dtype_dict \<Rightarrow> MemmapTensor \<Rightarrow> pyval \<Rightarrow> index option \<Rightarrow> world
     \<Rightarrow> (error + unit) \<times> MemmapTensor \<times> world" where
  "save_item D self val i w =
     (case (case val of
              PTensor t \<Rightarrow> tensor_numpy t
            | PNdarray a \<Rightarrow> Inr a
            | _ \<Rightarrow> Inl Outside_model) of
        Inl e \<Rightarrow> (Inl e, self, w)
      | Inr np_array \<Rightarrow>
          (case get_memmap_array D self w of
             (Inl e, self', w') \<Rightarrow> (Inl e, self', w')
           | (Inr mm, self', w') \<Rightarrow>
               (case i of
                  None \<Rightarrow>
                    (case ndarray_setitem mm Slice_all np_array w' of (r, w'') \<Rightarrow> (r, self', w''))
                | Some j \<Rightarrow>
                    (case ndarray_setitem mm j np_array w' of (r, w'') \<Rightarrow> (r, self', w'')))))"

text \<open>
  \<^verbatim>\<open>_copy_item\<close>. Python evaluates the right-hand side first: the table lookup, then
  the read-only mapping of the other file, then the mapping of this handle.
\<close>

definition copy_item ::
  "dtype_dict \<Rightarrow> MemmapTensor \<Rightarrow> path \<Rightarrow> world \<Rightarrow> (error + unit) \<times> MemmapTensor \<times> world" where
  "copy_item D self fn w =
     (case D (dtype self) of
        None \<Rightarrow> (Inl KeyError, self, w)
      | Some nd \<Rightarrow>
          (case np_memmap_open fn nd Mode_r (np_shape self) w of
             (Inl e, w1) \<Rightarrow> (Inl e, self, w1)
           | (Inr src, w1) \<Rightarrow>
               (case get_memmap_array D self w1 of
                  (Inl e, self', w2) \<Rightarrow> (Inl e, self', w2)
                | (Inr mm, self', w2) \<Rightarrow>
                    (case ndarray_setitem mm Slice_all
                            \<lparr>a_data = view_read w2 (mm_view src), a_shape = v_shape (mm_view src),
                             a_dtype = v_dtype (mm_view src)\<rparr> w2 of
                       (r, w3) \<Rightarrow> (r, self', w3)))))"

definition np_to_tensor :: "MemmapTensor \<Rightarrow> view \<Rightarrow> world \<Rightarrow> tensor_ref" where
  "np_to_tensor self v w = as_tensor w v (device self)"

definition load_item ::
  "dtype_dict \<Rightarrow> MemmapTensor \<Rightarrow> index option \<Rightarrow> view option \<Rightarrow> world
     \<Rightarrow> (error + tensor_ref) \<times> MemmapTensor \<times> world" where
  "load_item D self i arr w =
     (case (case arr of
              None \<Rightarrow> (case get_memmap_array D self w of
                          (Inl e, self', w') \<Rightarrow> (Inl e, self', w')
                        | (Inr mm, self', w') \<Rightarrow> (Inr (mm_view mm), self', w'))
            | Some v \<Rightarrow> (Inr v, self, w)) of
        (Inl e, self', w') \<Rightarrow> (Inl e, self', w')
      | (Inr v, self', w') \<Rightarrow>
          (case i of
             None \<Rightarrow> (Inr (np_to_tensor self' v w'), self', w')
           | Some j \<Rightarrow>
               (case index_view v j of
                  Inl e \<Rightarrow> (Inl e, self', w')
                | Inr s \<Rightarrow> (Inr (np_to_tensor self' s w'), self', w'))))"

text \<open>The property \<^verbatim>\<open>_tensor\<close>.\<close>

definition tensor_prop ::
  "dtype_dict \<Rightarrow> MemmapTensor \<Rightarrow> world \<Rightarrow> (error + tensor_ref) \<times> MemmapTensor \<times> world" where
  "tensor_prop D self w = load_item D self None None w"

definition ndimension :: "MemmapTensor \<Rightarrow> nat" where
  "ndimension self = ndim self"

text \<open>
  \<^verbatim>\<open>__getattr__\<close>, which Python calls for a name that the handle and its class do not
  have. The result is the materialised tensor, on which the caller reads the attribute.
  The first branch re-raises the failure of an attribute of the class itself.
\<close>

definition getattr ::
  "dtype_dict \<Rightarrow> MemmapTensor \<Rightarrow> string \<Rightarrow> world
     \<Rightarrow> (error + tensor_ref) \<times> MemmapTensor \<times> world" where
  "getattr D self attr w =
     (if attr \<in> set memmap_dir then (Inl Outside_model, self, w)
      else if attr \<notin> set (tensor_dir self) then (Inl AttributeError, self, w)
      else tensor_prop D self w)"

text \<open>
  \<^verbatim>\<open>__del__\<close>: closes the temporary file, which unlinks the name when the closer's
  delete flag is set. The interpreter ignores an exception raised in \<^verbatim>\<open>__del__\<close>.
\<close>

definition del :: "MemmapTensor \<Rightarrow> world \<Rightarrow> world" where
  "del self w =
     (case file_obj self of
        None \<Rightarrow> w
      | Some f \<Rightarrow> (case tmpfile_close f w of (r, f', w') \<Rightarrow> w'))"

subsection \<open>Construction\<close>

text \<open>Lines 113 to 126 of \<^verbatim>\<open>__init__\<close>: the attributes of a new handle.\<close>

definition init_attrs ::
  "tmpfile \<Rightarrow> device \<Rightarrow> nat list \<Rightarrow> bool \<Rightarrow> dtype \<Rightarrow> string list \<Rightarrow> nat \<Rightarrow> nat \<Rightarrow> MemmapTensor" where
  "init_attrs f dev shp t_own dt names nd ne =
     \<lparr>idx = None, memmap_array = None, file_obj = Some f, filename = tf_name f,
      device = dev, shape = shp, transfer_ownership = t_own, np_shape = shp, dtype = dt,
      tensor_dir = names, ndim = nd, numel = ne, mode = Mode_rplus, has_ownership = True\<rparr>"

text \<open>
  \<^verbatim>\<open>__init__\<close>. The result holds the new handle, the source (a MemmapTensor source may
  have opened its mapping) and the world. A MemmapTensor has no attribute
  \<^verbatim>\<open>requires_grad\<close>, so for such a source the test of line 107 goes through
  \<^verbatim>\<open>__getattr__\<close>. When the constructor raises after the temporary file exists, the
  half-built object is collected and its \<^verbatim>\<open>__del__\<close> runs.
\<close>

definition init ::
  "dtype_dict \<Rightarrow> pyval \<Rightarrow> bool \<Rightarrow> world \<Rightarrow> (error + MemmapTensor) \<times> pyval \<times> world" where
  "init D elem t_own w =
     (case elem of
        PTensor t \<Rightarrow>
          if requires_grad t then (Inl RuntimeError, elem, w)
          else
            (case NamedTemporaryFile True w of
               (f, w1) \<Rightarrow>
                 (case save_item D
                         (init_attrs f (t_device t) (t_shape t) t_own (t_dtype t) torch_tensor_dir
                            (length (t_shape t)) (prod_list (t_shape t)))
                         elem None w1 of
                    (Inl e, self, w2) \<Rightarrow> (Inl e, elem, del self w2)
                  | (Inr u, self, w2) \<Rightarrow> (Inr self, elem, w2)))
      | PMemmap m \<Rightarrow>
          (case getattr D m ''requires_grad'' w of
             (Inl e, m1, w1) \<Rightarrow> (Inl e, PMemmap m1, w1)
           | (Inr r, m1, w1) \<Rightarrow>
               if requires_grad (tensor_value w1 r) then (Inl RuntimeError, PMemmap m1, w1)
               else
                 (case NamedTemporaryFile True w1 of
                    (f, w2) \<Rightarrow>
                      (case copy_item D
                              (init_attrs f (device m1) (shape m1) t_own (dtype m1) memmap_dir
                                 (ndimension m1) (numel m1))
                              (filename m1) w2 of
                         (Inl e, self, w3) \<Rightarrow> (Inl e, PMemmap m1, del self w3)
                       | (Inr u, self, w3) \<Rightarrow>
                           (case get_memmap_array D self w3 of
                              (Inl e, self1, w4) \<Rightarrow> (Inl e, PMemmap m1, del self1 w4)
                            | (Inr a, self1, w4) \<Rightarrow>
                                (case get_memmap_array D m1 w4 of
                                   (Inl e, m2, w5) \<Rightarrow> (Inl e, PMemmap m2, del self1 w5)
                                 | (Inr b, m2, w5) \<Rightarrow>
                                     if mm_id a = mm_id b
                                     then (Inl RuntimeError, PMemmap m2, del self1 w5)
                                     else (Inr self1, PMemmap m2, w5))))))
      | _ \<Rightarrow> (Inl TypeError, elem, w))"

definition clone ::
  "dtype_dict \<Rightarrow> MemmapTensor \<Rightarrow> world \<Rightarrow> (error + MemmapTensor) \<times> pyval \<times> world" where
  "clone D self w = init D (PMemmap self) False w"

subsection \<open>Reading and writing\<close>

text \<open>
  \<^verbatim>\<open>copy_\<close>, here \<open>copy_inplace\<close>. It returns the handle itself, the second component
  of the result.
\<close>

definition copy_inplace ::
  "dtype_dict \<Rightarrow> MemmapTensor \<Rightarrow> pyval \<Rightarrow> world \<Rightarrow> (error + unit) \<times> MemmapTensor \<times> world" where
  "copy_inplace D self other w = save_item D self other None w"

definition getitem ::
  "dtype_dict \<Rightarrow> MemmapTensor \<Rightarrow> index \<Rightarrow> world
     \<Rightarrow> (error + tensor_ref) \<times> MemmapTensor \<times> world" where
  "getitem D self item w =
     (case load_item D self None None w of
        (Inl e, self', w') \<Rightarrow> (Inl e, self', w')
      | (Inr t, self', w') \<Rightarrow> (tensor_getitem t item, self', w'))"

definition setitem ::
  "dtype_dict \<Rightarrow> MemmapTensor \<Rightarrow> index \<Rightarrow> tensor \<Rightarrow> world
     \<Rightarrow> (error + unit) \<times> MemmapTensor \<times> world" where
  "setitem D self i val w =
     (case load_item D self None None w of
        (Inl e, self', w') \<Rightarrow> (Inl e, self', w')
      | (Inr t, self', w') \<Rightarrow>
          (case tensor_setitem t i val w' of (r, w'') \<Rightarrow> (r, self', w'')))"

subsection \<open>Comparison\<close>

text \<open>
  \<^verbatim>\<open>t == other\<close> is computed by the libraries, element by element. How one element is
  compared with a scalar, or with an element of another array, after the conversion of
  types that the library makes, is arithmetic of the libraries and a parameter here:
  \<open>E dt x s\<close> is the outcome for an element \<open>x\<close> of a tensor of dtype \<open>dt\<close> against \<open>s\<close>,
  which is a Python int, float or bool, or an element of a tensor or of a numpy array
  with the dtype of that array.
\<close>

datatype scalar =
    S_int int | S_float real | S_bool bool | S_torch dtype elem | S_numpy np_dtype elem

type_synonym scalar_eq = "dtype \<Rightarrow> elem \<Rightarrow> scalar \<Rightarrow> bool"

text \<open>
  The result of a comparison: a tensor of truth values (of dtype bool, or uint8 where
  numpy made the comparison), with its shape and device.
\<close>

record truth_tensor =
  b_data :: "bool list"
  b_shape :: "nat list"
  b_device :: device

definition compare_with :: "scalar_eq \<Rightarrow> tensor \<Rightarrow> scalar \<Rightarrow> truth_tensor" where
  "compare_with E t s =
     \<lparr>b_data = map (\<lambda>x. E (t_dtype t) x s) (t_data t), b_shape = t_shape t,
      b_device = t_device t\<rparr>"

text \<open>
  Two tensors of the same shape on the same device. Other shapes are broadcast or
  refused, and other devices refused or not, by rules the model leaves out.
\<close>

definition compare_tensors :: "scalar_eq \<Rightarrow> tensor \<Rightarrow> tensor \<Rightarrow> error + truth_tensor" where
  "compare_tensors E t other =
     (if t_shape other = t_shape t \<and> t_device other = t_device t
         \<and> wf_tensor t \<and> wf_tensor other
      then Inr \<lparr>b_data = map (\<lambda>(x, y). E (t_dtype t) x (S_torch (t_dtype other) y))
                              (zip (t_data t) (t_data other)),
                b_shape = t_shape t, b_device = t_device t\<rparr>
      else Inl Outside_model)"

text \<open>
  A tensor on the CPU against a numpy array of the same shape: torch declines the
  operand and numpy makes the comparison, whose result comes back as a tensor.
\<close>

definition compare_ndarray :: "scalar_eq \<Rightarrow> tensor \<Rightarrow> ndarray \<Rightarrow> error + truth_tensor" where
  "compare_ndarray E t a =
     (if a_shape a = t_shape t \<and> t_device t = CPU
         \<and> wf_tensor t \<and> length (a_data a) = prod_list (a_shape a)
      then Inr \<lparr>b_data = map (\<lambda>(x, y). E (t_dtype t) x (S_numpy (a_dtype a) y))
                              (zip (t_data t) (a_data a)),
                b_shape = t_shape t, b_device = CPU\<rparr>
      else Inl Outside_model)"

text \<open>A Python int that fits the 64 bits of a torch scalar; a larger one is refused.\<close>

definition in_int64 :: "int \<Rightarrow> bool" where
  "in_int64 n = (- (2 ^ 63) \<le> n \<and> n < 2 ^ 63)"

text \<open>
  \<^verbatim>\<open>t == other\<close> for a tensor \<open>t\<close>. A MemmapTensor operand is replaced by its
  \<^verbatim>\<open>_tensor\<close> in \<^verbatim>\<open>__torch_function__\<close>.
\<close>

definition tensor_eq ::
  "scalar_eq \<Rightarrow> dtype_dict \<Rightarrow> tensor \<Rightarrow> pyval \<Rightarrow> world \<Rightarrow> (error + truth_tensor) \<times> world" where
  "tensor_eq E D t other w =
     (case other of
        PInt n \<Rightarrow>
          if in_int64 n then (Inr (compare_with E t (S_int n)), w) else (Inl Outside_model, w)
      | PBool b \<Rightarrow> (Inr (compare_with E t (S_bool b)), w)
      | PFloat r \<Rightarrow> (Inr (compare_with E t (S_float r)), w)
      | PTensor other_t \<Rightarrow> (compare_tensors E t other_t, w)
      | PNdarray a \<Rightarrow> (compare_ndarray E t a, w)
      | PMemmap m \<Rightarrow>
          (case tensor_prop D m w of
             (Inl e, m', w') \<Rightarrow> (Inl e, w')
           | (Inr r, m', w') \<Rightarrow> (compare_tensors E t (tensor_value w' r), w'))
      | _ \<Rightarrow> (Inl Outside_model, w))"

text \<open>
  \<^verbatim>\<open>__eq__\<close>: \<^verbatim>\<open>isinstance(other, (MemmapTensor, torch.Tensor, float, int, np.ndarray))\<close>;
  a Python bool is an int.
\<close>

fun is_eq_operand :: "pyval \<Rightarrow> bool" where
  "is_eq_operand (PMemmap m) = True"
| "is_eq_operand (PTensor t) = True"
| "is_eq_operand (PFloat r) = True"
| "is_eq_operand (PInt n) = True"
| "is_eq_operand (PBool b) = True"
| "is_eq_operand (PNdarray a) = True"
| "is_eq_operand (PStr s) = False"
| "is_eq_operand PNone = False"

definition eq ::
  "scalar_eq \<Rightarrow> dtype_dict \<Rightarrow> MemmapTensor \<Rightarrow> pyval \<Rightarrow> world
     \<Rightarrow> (error + truth_tensor) \<times> MemmapTensor \<times> world" where
  "eq E D self other w =
     (if \<not> is_eq_operand other then (Inl NotImplementedError, self, w)
      else
        (case tensor_prop D self w of
           (Inl e, self', w') \<Rightarrow> (Inl e, self', w')
         | (Inr r, self', w') \<Rightarrow>
             (case tensor_eq E D (tensor_value w' r) other w' of
                (res, w'') \<Rightarrow> (res, self', w''))))"

subsection \<open>Ownership and serialization\<close>

text \<open>
  \<^verbatim>\<open>set_transfer_ownership\<close>, the method: \<^verbatim>\<open>isinstance(value, bool)\<close> holds for a Python
  bool only. It returns \<^verbatim>\<open>self\<close>: the first component of the result is the handle as
  it is after the call, which is the second component.
\<close>

definition set_transfer_ownership ::
  "MemmapTensor \<Rightarrow> pyval \<Rightarrow> (error + MemmapTensor) \<times> MemmapTensor" where
  "set_transfer_ownership self v =
     (case v of
        PBool b \<Rightarrow> (Inr (self\<lparr>transfer_ownership := b\<rparr>), self\<lparr>transfer_ownership := b\<rparr>)
      | _ \<Rightarrow> (Inl TypeError, self))"

text \<open>
  \<^verbatim>\<open>__getstate__\<close>: the state is copied before the handle's \<^verbatim>\<open>_has_ownership\<close> is
  overwritten, so it holds the value from before the call.
\<close>

definition getstate :: "MemmapTensor \<Rightarrow> (error + MemmapTensor) \<times> MemmapTensor" where
  "getstate self =
     (case file_obj self of
        None \<Rightarrow> (Inl AttributeError, self)
      | Some f \<Rightarrow>
          (Inr (self\<lparr>file_obj := None, memmap_array := None\<rparr>),
           self\<lparr>has_ownership := tf_delete f\<rparr>))"

text \<open>
  \<^verbatim>\<open>__reduce__\<close>, which pickle calls: \<^verbatim>\<open>object.__reduce__\<close> obtains the state from
  \<^verbatim>\<open>__getstate__\<close> and returns it with the constructor of a blank instance. The model
  returns the state.
\<close>

definition reduce :: "MemmapTensor \<Rightarrow> (error + MemmapTensor) \<times> MemmapTensor" where
  "reduce self =
     (if transfer_ownership self
      then (case file_obj self of
              None \<Rightarrow> (Inl AttributeError, self)
            | Some f \<Rightarrow>
                getstate (self\<lparr>file_obj := Some (f\<lparr>tf_delete := False, closer_delete := False\<rparr>)\<rparr>))
      else getstate self)"

text \<open>
  \<^verbatim>\<open>__setstate__\<close> on the blank instance that unpickling creates: every attribute comes
  from the state. \<^verbatim>\<open>NamedTemporaryFile\<close> creates a file of its own, whose name the
  handle then replaces by the name in the state.
\<close>

definition setstate :: "MemmapTensor \<Rightarrow> world \<Rightarrow> MemmapTensor \<times> world" where
  "setstate state w =
     (case file_obj state of
        None \<Rightarrow>
          (let delete = (transfer_ownership state \<and> has_ownership state)
           in case NamedTemporaryFile delete w of
                (tmp, w') \<Rightarrow>
                  (state\<lparr>has_ownership := delete,
                         file_obj := Some (tmp\<lparr>tf_name := filename state,
                                                closer_name := filename state\<rparr>)\<rparr>,
                   w'))
      | Some f \<Rightarrow> (state, w))"

text \<open>The function \<^verbatim>\<open>set_transfer_ownership\<close> of the module, which returns nothing.\<close>

definition set_transfer_ownership_fn :: "pyval \<Rightarrow> pyval \<Rightarrow> (error + unit) \<times> pyval" where
  "set_transfer_ownership_fn memmap v =
     (case memmap of
        PMemmap m \<Rightarrow>
          (case set_transfer_ownership m v of
             (Inl e, m') \<Rightarrow> (Inl e, PMemmap m')
           | (Inr r, m') \<Rightarrow> (Inr (), PMemmap m'))
      | _ \<Rightarrow> (Inr (), memmap))"

subsection \<open>Predicates of the specification\<close>

text \<open>The \<^verbatim>\<open>isinstance\<close> tests, as predicates on values.\<close>

fun is_bool :: "pyval \<Rightarrow> bool" where
  "is_bool (PBool b) = True"
| "is_bool v = False"

fun is_memmap :: "pyval \<Rightarrow> bool" where
  "is_memmap (PMemmap m) = True"
| "is_memmap v = False"

fun is_tensor :: "pyval \<Rightarrow> bool" where
  "is_tensor (PTensor t) = True"
| "is_tensor v = False"

text \<open>
  The specification's \<open>owns_file\<close>. The code keeps it in three places: the attribute
  \<^verbatim>\<open>_has_ownership\<close> and the delete flags of the temporary file and of its closer. A
  handle is \<open>Owned\<close> when all three are set and \<open>NotOwned\<close> when none is; the operations
  keep a handle in one of the two states (lemmas \<open>init_tensor_owns\<close>,
  \<open>clone_constructed\<close>, \<open>setstate_state\<close>, \<open>calls_ownership_state\<close>).
\<close>

definition owns_file :: "MemmapTensor \<Rightarrow> bool" where
  "owns_file m =
     (case file_obj m of
        None \<Rightarrow> False
      | Some f \<Rightarrow> has_ownership m \<and> tf_delete f \<and> closer_delete f)"

definition not_owns_file :: "MemmapTensor \<Rightarrow> bool" where
  "not_owns_file m =
     (case file_obj m of
        None \<Rightarrow> False
      | Some f \<Rightarrow> \<not> has_ownership m \<and> \<not> tf_delete f \<and> \<not> closer_delete f)"

text \<open>The temporary file of the handle is open and carries the handle's file name.\<close>

definition live_file :: "MemmapTensor \<Rightarrow> bool" where
  "live_file m =
     (case file_obj m of
        None \<Rightarrow> False
      | Some f \<Rightarrow> \<not> close_called f \<and> closer_name f = filename m \<and> tf_name f = filename m)"

text \<open>
  The mapping of the handle is open, writable, covers the handle's own file with the
  handle's shape and dtype, and the file is long enough for it.
\<close>

definition mapped :: "MemmapTensor \<Rightarrow> world \<Rightarrow> bool" where
  "mapped m w =
     (case memmap_array m of
        None \<Rightarrow> False
      | Some mm \<Rightarrow>
          mm_mode mm = Mode_rplus \<and> v_file (mm_view mm) = filename m \<and> v_offset (mm_view mm) = 0
          \<and> v_shape (mm_view mm) = np_shape m \<and> torch_of_numpy (v_dtype (mm_view mm)) = dtype m
          \<and> prod_list (np_shape m) \<le> length (content w (filename m)))"

text \<open>
  The handle was built in this world: its mapping is open, its file is in the directory
  under a name, and its mapping under an object number, that have been handed out, the
  table maps its dtype to the dtype of its mapping, and it has elements. \<^verbatim>\<open>__init__\<close>
  establishes this (lemmas \<open>init_tensor_constructed\<close>, \<open>clone_constructed\<close>).
\<close>

definition constructed_in :: "dtype_dict \<Rightarrow> MemmapTensor \<Rightarrow> world \<Rightarrow> bool" where
  "constructed_in D m w =
     (mapped m w \<and> filename m \<in> present w \<and> filename m < next_tmp w
      \<and> (case memmap_array m of
            None \<Rightarrow> False
          | Some mm \<Rightarrow> mm_id mm < next_obj w \<and> D (dtype m) = Some (v_dtype (mm_view mm)))
      \<and> shape m = np_shape m \<and> np_shape m \<noteq> [] \<and> prod_list (np_shape m) \<noteq> 0)"

text \<open>
  The specification's \<open>materialize\<close>, and the value of an indexed read: the tensor that
  \<^verbatim>\<open>_tensor\<close> and \<^verbatim>\<open>m[i]\<close> denote at the moment they return.
\<close>

definition materialize :: "dtype_dict \<Rightarrow> MemmapTensor \<Rightarrow> world \<Rightarrow> error + tensor" where
  "materialize D m w =
     (case load_item D m None None w of
        (Inl e, m', w') \<Rightarrow> Inl e
      | (Inr r, m', w') \<Rightarrow> Inr (tensor_value w' r))"

definition read_item :: "dtype_dict \<Rightarrow> MemmapTensor \<Rightarrow> index \<Rightarrow> world \<Rightarrow> error + tensor" where
  "read_item D m i w =
     (case getitem D m i w of
        (Inl e, m', w') \<Rightarrow> Inl e
      | (Inr r, m', w') \<Rightarrow> Inr (tensor_value w' r))"

text \<open>
  What a program can go on to do with a live handle: any sequence of calls of its
  methods, each taking the handle and the world as the one before left them.
\<close>

datatype method_call =
    Call_copy pyval | Call_getitem index | Call_setitem index tensor | Call_eq pyval
  | Call_set_transfer pyval | Call_reduce | Call_getstate | Call_clone

fun call ::
  "scalar_eq \<Rightarrow> dtype_dict \<Rightarrow> method_call \<Rightarrow> MemmapTensor \<times> world \<Rightarrow> MemmapTensor \<times> world" where
  "call E D (Call_copy v) (m, w) = (case copy_inplace D m v w of (r, m', w') \<Rightarrow> (m', w'))"
| "call E D (Call_getitem i) (m, w) = (case getitem D m i w of (r, m', w') \<Rightarrow> (m', w'))"
| "call E D (Call_setitem i v) (m, w) = (case setitem D m i v w of (r, m', w') \<Rightarrow> (m', w'))"
| "call E D (Call_eq v) (m, w) = (case eq E D m v w of (r, m', w') \<Rightarrow> (m', w'))"
| "call E D (Call_set_transfer v) (m, w) = (snd (set_transfer_ownership m v), w)"
| "call E D Call_reduce (m, w) = (snd (reduce m), w)"
| "call E D Call_getstate (m, w) = (snd (getstate m), w)"
| "call E D Call_clone (m, w) =
     (case clone D m w of (r, PMemmap m', w') \<Rightarrow> (m', w') | (r, e, w') \<Rightarrow> (m, w'))"

fun calls ::
  "scalar_eq \<Rightarrow> dtype_dict \<Rightarrow> method_call list \<Rightarrow> MemmapTensor \<times> world
     \<Rightarrow> MemmapTensor \<times> world" where
  "calls E D [] s = s"
| "calls E D (c # cs) s = calls E D cs (call E D c s)"

text \<open>
  A supported source tensor: it has as many elements as its shape says, a dtype that
  numpy has, and the table maps that dtype to its numpy counterpart.
\<close>

definition supported :: "dtype_dict \<Rightarrow> tensor \<Rightarrow> bool" where
  "supported D x =
     (wf_tensor x \<and> numpy_of_torch (t_dtype x) \<noteq> None
      \<and> D (t_dtype x) = numpy_of_torch (t_dtype x))"

subsection \<open>Example inputs\<close>

definition w0 :: world where
  "w0 = \<lparr>present = {}, content = (\<lambda>p. []), next_tmp = 0, next_obj = 0\<rparr>"

definition x_cpu :: tensor where
  "x_cpu = \<lparr>t_data = [1, 2, 3, 4, 5, 6], t_shape = [2, 3], t_dtype = T_int64, t_device = CPU,
            requires_grad = False\<rparr>"

definition x_cuda :: tensor where
  "x_cuda = x_cpu\<lparr>t_device := CUDA 0\<rparr>"

text \<open>A tensor of no dimension, as \<^verbatim>\<open>torch.tensor(5)\<close>, and one of no elements.\<close>

definition x_scalar :: tensor where
  "x_scalar = \<lparr>t_data = [5], t_shape = [], t_dtype = T_int64, t_device = CPU,
               requires_grad = False\<rparr>"

definition x_empty :: tensor where
  "x_empty = \<lparr>t_data = [], t_shape = [0, 3], t_dtype = T_int64, t_device = CPU,
              requires_grad = False\<rparr>"

definition row :: "device \<Rightarrow> tensor" where
  "row d = \<lparr>t_data = [7, 8, 9], t_shape = [3], t_dtype = T_int64, t_device = d,
            requires_grad = False\<rparr>"

text \<open>The handle and the world that \<^verbatim>\<open>MemmapTensor(x_cpu, t_own)\<close> gives in \<open>w0\<close>.\<close>

definition example_handle :: "bool \<Rightarrow> MemmapTensor" where
  "example_handle t_own =
     (init_attrs \<lparr>tf_name = 0, tf_delete = True, closer_name = 0, closer_delete = True,
                  close_called = False\<rparr> CPU [2, 3] t_own T_int64 torch_tensor_dir 2 6)
       \<lparr>memmap_array := Some \<lparr>mm_id = 0, mm_mode = Mode_rplus,
            mm_view = \<lparr>v_file = 0, v_offset = 0, v_shape = [2, 3], v_dtype = N_int64\<rparr>\<rparr>\<rparr>"

definition w1 :: world where
  "w1 = \<lparr>present = {0}, content = (\<lambda>p. [])(0 := [1, 2, 3, 4, 5, 6]), next_tmp = 1, next_obj = 1\<rparr>"

text \<open>
  The comparison of elements where no conversion changes a value, as for int64 elements
  against small integers.
\<close>

fun exact_eq :: scalar_eq where
  "exact_eq dt x (S_int n) = (x = n)"
| "exact_eq dt x (S_float r) = (real_of_int x = r)"
| "exact_eq dt x (S_bool b) = (x = (if b then 1 else 0))"
| "exact_eq dt x (S_torch d y) = (x = y)"
| "exact_eq dt x (S_numpy d y) = (x = y)"

section \<open>Properties\<close>

subsection \<open>Construction from a tensor\<close>

lemma torch_of_numpy_inverse: "numpy_of_torch d = Some nd \<Longrightarrow> torch_of_numpy nd = d"
  by (cases d) auto

lemma init_tensor:
  assumes "\<not> requires_grad x" and "wf_tensor x"
    and "D (t_dtype x) = Some nd" and "numpy_of_torch (t_dtype x) = Some nd"
    and "t_shape x \<noteq> []"
  shows "init D (PTensor x) t_own w =
           (Inr ((init_attrs \<lparr>tf_name = next_tmp w, tf_delete = True, closer_name = next_tmp w,
                               closer_delete = True, close_called = False\<rparr>
                    (t_device x) (t_shape x) t_own (t_dtype x) torch_tensor_dir
                    (length (t_shape x)) (prod_list (t_shape x)))
                 \<lparr>memmap_array := Some \<lparr>mm_id = next_obj w, mm_mode = Mode_rplus,
                     mm_view = \<lparr>v_file = next_tmp w, v_offset = 0, v_shape = t_shape x,
                                v_dtype = nd\<rparr>\<rparr>\<rparr>),
            PTensor x,
            w\<lparr>present := insert (next_tmp w) (present w),
               content := (content w)(next_tmp w := t_data x),
               next_tmp := Suc (next_tmp w), next_obj := Suc (next_obj w)\<rparr>)"
  using assms
  by (cases "t_shape x")
     (simp_all add: init_def NamedTemporaryFile_def save_item_def tensor_numpy_def
      get_memmap_array_def init_attrs_def np_memmap_open_def ndarray_setitem_def index_view_def
      view_write_def wf_tensor_def Let_def)

lemma supported_x_cpu: "supported numpy_of_torch x_cpu"
  by (simp add: supported_def x_cpu_def wf_tensor_def)

lemma supported_x_cuda: "supported numpy_of_torch x_cuda"
  by (simp add: supported_def x_cuda_def x_cpu_def wf_tensor_def)

lemma init_example:
  "init numpy_of_torch (PTensor x_cpu) t_own w0 = (Inr (example_handle t_own), PTensor x_cpu, w1)"
proof -
  have "init numpy_of_torch (PTensor x_cpu) t_own w0 =
          (Inr ((init_attrs \<lparr>tf_name = next_tmp w0, tf_delete = True, closer_name = next_tmp w0,
                               closer_delete = True, close_called = False\<rparr>
                    (t_device x_cpu) (t_shape x_cpu) t_own (t_dtype x_cpu) torch_tensor_dir
                    (length (t_shape x_cpu)) (prod_list (t_shape x_cpu)))
                 \<lparr>memmap_array := Some \<lparr>mm_id = next_obj w0, mm_mode = Mode_rplus,
                     mm_view = \<lparr>v_file = next_tmp w0, v_offset = 0, v_shape = t_shape x_cpu,
                                v_dtype = N_int64\<rparr>\<rparr>\<rparr>),
            PTensor x_cpu,
            w0\<lparr>present := insert (next_tmp w0) (present w0),
               content := (content w0)(next_tmp w0 := t_data x_cpu),
               next_tmp := Suc (next_tmp w0), next_obj := Suc (next_obj w0)\<rparr>)"
    by (rule init_tensor) (simp_all add: x_cpu_def wf_tensor_def)
  then show ?thesis
    by (simp add: example_handle_def w1_def w0_def x_cpu_def init_attrs_def)
qed

lemma owns_example: "owns_file (example_handle t_own)"
  by (simp add: owns_file_def example_handle_def init_attrs_def)

lemma live_example: "live_file (example_handle t_own)"
  by (simp add: live_file_def example_handle_def init_attrs_def)


subsection \<open>What a method leaves of the handle\<close>

text \<open>Reading and writing change no attribute of the handle but the cached mapping.\<close>

lemma attrs_kept:
  assumes "m'\<lparr>memmap_array := None\<rparr> = m\<lparr>memmap_array := None\<rparr>"
  shows "file_obj m' = file_obj m" and "filename m' = filename m"
    and "has_ownership m' = has_ownership m" and "transfer_ownership m' = transfer_ownership m"
    and "device m' = device m" and "dtype m' = dtype m" and "np_shape m' = np_shape m"
    and "shape m' = shape m" and "mode m' = mode m" and "tensor_dir m' = tensor_dir m"
    and "ndim m' = ndim m" and "numel m' = numel m"
  using arg_cong [OF assms, of file_obj] arg_cong [OF assms, of filename]
    arg_cong [OF assms, of has_ownership] arg_cong [OF assms, of transfer_ownership]
    arg_cong [OF assms, of device] arg_cong [OF assms, of dtype] arg_cong [OF assms, of np_shape]
    arg_cong [OF assms, of shape] arg_cong [OF assms, of mode] arg_cong [OF assms, of tensor_dir]
    arg_cong [OF assms, of ndim] arg_cong [OF assms, of numel]
  by simp_all

lemma get_memmap_array_self:
  "get_memmap_array D m w = (r, m', w') \<Longrightarrow> m'\<lparr>memmap_array := None\<rparr> = m\<lparr>memmap_array := None\<rparr>"
  by (auto simp: get_memmap_array_def split: option.splits prod.splits sum.splits)

lemma save_item_self:
  "save_item D m v i w = (r, m', w') \<Longrightarrow> m'\<lparr>memmap_array := None\<rparr> = m\<lparr>memmap_array := None\<rparr>"
  by (auto simp: save_item_def split: option.splits prod.splits sum.splits
      dest: get_memmap_array_self)

lemma copy_item_self:
  "copy_item D m fn w = (r, m', w') \<Longrightarrow> m'\<lparr>memmap_array := None\<rparr> = m\<lparr>memmap_array := None\<rparr>"
  by (auto simp: copy_item_def split: option.splits prod.splits sum.splits
      dest: get_memmap_array_self)

lemma load_item_self:
  "load_item D m i a w = (r, m', w') \<Longrightarrow> m'\<lparr>memmap_array := None\<rparr> = m\<lparr>memmap_array := None\<rparr>"
  by (auto simp: load_item_def split: option.splits prod.splits sum.splits
      dest: get_memmap_array_self)

lemma getitem_self:
  "getitem D m i w = (r, m', w') \<Longrightarrow> m'\<lparr>memmap_array := None\<rparr> = m\<lparr>memmap_array := None\<rparr>"
  by (auto simp: getitem_def split: option.splits prod.splits sum.splits dest: load_item_self)

lemma setitem_self:
  "setitem D m i v w = (r, m', w') \<Longrightarrow> m'\<lparr>memmap_array := None\<rparr> = m\<lparr>memmap_array := None\<rparr>"
  by (auto simp: setitem_def split: option.splits prod.splits sum.splits dest: load_item_self)

lemma eq_self:
  "eq E D m v w = (r, m', w') \<Longrightarrow> m'\<lparr>memmap_array := None\<rparr> = m\<lparr>memmap_array := None\<rparr>"
  by (auto simp: eq_def tensor_prop_def split: if_splits option.splits prod.splits sum.splits
      dest: load_item_self)

subsection \<open>The two ownership states\<close>

lemma init_tensor_owns:
  assumes "init D (PTensor x) t_own w = (Inr m, e, w')"
  shows "owns_file m \<and> live_file m"
proof -
  from assms obtain self u w2 where
    s: "save_item D
          (init_attrs \<lparr>tf_name = next_tmp w, tf_delete = True, closer_name = next_tmp w,
                       closer_delete = True, close_called = False\<rparr>
             (t_device x) (t_shape x) t_own (t_dtype x) torch_tensor_dir
             (length (t_shape x)) (prod_list (t_shape x)))
          (PTensor x) None
          (w\<lparr>present := insert (next_tmp w) (present w),
             content := (content w)(next_tmp w := []), next_tmp := Suc (next_tmp w)\<rparr>)
        = (Inr u, self, w2)" and m: "m = self"
    by (auto simp: init_def NamedTemporaryFile_def Let_def
        split: if_splits prod.splits sum.splits)
  from attrs_kept(1-3) [OF save_item_self [OF s]] m show ?thesis
    by (simp add: owns_file_def live_file_def init_attrs_def)
qed

lemma reduce_owned:
  assumes "owns_file m"
  shows "fst (reduce m) = Inr (m\<lparr>file_obj := None, memmap_array := None\<rparr>)
         \<and> (if transfer_ownership m then not_owns_file (snd (reduce m)) else snd (reduce m) = m)"
  using assms
  by (auto simp: owns_file_def not_owns_file_def reduce_def getstate_def split: option.splits)

lemma reduce_not_owned:
  assumes "not_owns_file m"
  shows "fst (reduce m) = Inr (m\<lparr>file_obj := None, memmap_array := None\<rparr>) \<and> snd (reduce m) = m"
  using assms
  by (auto simp: not_owns_file_def reduce_def getstate_def split: option.splits)

lemma reduce_live:
  assumes "live_file m"
  shows "live_file (snd (reduce m))"
  using assms
  by (auto simp: live_file_def reduce_def getstate_def split: option.splits)

lemma setstate_state:
  assumes "file_obj st = None"
  shows "(owns_file (fst (setstate st w)) \<or> not_owns_file (fst (setstate st w)))
         \<and> live_file (fst (setstate st w)) \<and> filename (fst (setstate st w)) = filename st"
  using assms
  by (auto simp: owns_file_def not_owns_file_def live_file_def setstate_def
      NamedTemporaryFile_def Let_def)

subsection \<open>Ownership under later calls\<close>

text \<open>A handle that has given up the file keeps it given up.\<close>

lemma getattr_self:
  "getattr D m a w = (r, m', w') \<Longrightarrow> m'\<lparr>memmap_array := None\<rparr> = m\<lparr>memmap_array := None\<rparr>"
  by (auto simp: getattr_def tensor_prop_def split: if_splits dest: load_item_self)

lemma init_memmap_source:
  assumes "init D (PMemmap m) t_own w = (r, e, w')"
  shows "\<exists>m'. e = PMemmap m' \<and> m'\<lparr>memmap_array := None\<rparr> = m\<lparr>memmap_array := None\<rparr>"
proof -
  obtain r1 m1 wa where g: "getattr D m ''requires_grad'' w = (r1, m1, wa)"
    by (cases "getattr D m ''requires_grad'' w") auto
  note k1 = getattr_self [OF g]
  show ?thesis
  proof (cases r1)
    case (Inl err)
    with assms g k1 show ?thesis by (auto simp: init_def)
  next
    case (Inr t)
    show ?thesis
    proof (cases "requires_grad (tensor_value wa t)")
      case True
      with assms g k1 Inr show ?thesis by (auto simp: init_def)
    next
      case False
      with assms g k1 Inr show ?thesis
        by (auto simp: init_def split: prod.splits sum.splits if_splits
            dest!: get_memmap_array_self)
    qed
  qed
qed

lemma not_owns_cong:
  assumes "m'\<lparr>memmap_array := None\<rparr> = m\<lparr>memmap_array := None\<rparr>" and "not_owns_file m"
  shows "not_owns_file m'"
  using assms(2) attrs_kept(1,3) [OF assms(1)]
  by (auto simp: not_owns_file_def split: option.splits)

lemma call_not_owned:
  assumes "not_owns_file m"
  shows "not_owns_file (fst (call E D c (m, w)))"
proof (cases c)
  case (Call_copy v)
  then show ?thesis using assms
    by (auto simp: copy_inplace_def split: prod.splits dest!: save_item_self intro: not_owns_cong)
next
  case (Call_getitem i)
  then show ?thesis using assms
    by (auto split: prod.splits dest!: getitem_self intro: not_owns_cong)
next
  case (Call_setitem i v)
  then show ?thesis using assms
    by (auto split: prod.splits dest!: setitem_self intro: not_owns_cong)
next
  case (Call_eq v)
  then show ?thesis using assms
    by (auto split: prod.splits dest!: eq_self intro: not_owns_cong)
next
  case (Call_set_transfer v)
  then show ?thesis using assms
    by (cases v) (auto simp: set_transfer_ownership_def not_owns_file_def split: option.splits)
next
  case Call_reduce
  then show ?thesis using assms reduce_not_owned [OF assms] by simp
next
  case Call_getstate
  then show ?thesis using assms
    by (auto simp: getstate_def not_owns_file_def split: option.splits)
next
  case Call_clone
  then show ?thesis using assms
    by (auto simp: clone_def split: prod.splits pyval.splits dest!: init_memmap_source
        intro: not_owns_cong)
qed

lemma calls_not_owned:
  "not_owns_file m \<Longrightarrow> not_owns_file (fst (calls E D cs (m, w)))"
proof (induction cs arbitrary: m w)
  case Nil
  then show ?case by simp
next
  case (Cons c cs)
  obtain m' w' where c: "call E D c (m, w) = (m', w')" by (cases "call E D c (m, w)") auto
  with call_not_owned [OF Cons.prems, of E D c w] have "not_owns_file m'" by simp
  from Cons.IH [OF this] c show ?case by simp
qed

text \<open>Every call keeps the handle in one of the two ownership states, and its file open.\<close>

lemma ownership_cong:
  assumes "m'\<lparr>memmap_array := None\<rparr> = m\<lparr>memmap_array := None\<rparr>"
    and "owns_file m \<or> not_owns_file m"
  shows "owns_file m' \<or> not_owns_file m'"
  using assms(2) attrs_kept(1,3) [OF assms(1)]
  by (auto simp: owns_file_def not_owns_file_def split: option.splits)

lemma call_ownership_state:
  assumes "owns_file m \<or> not_owns_file m"
  shows "owns_file (fst (call E D c (m, w))) \<or> not_owns_file (fst (call E D c (m, w)))"
proof (cases c)
  case (Call_copy v)
  then show ?thesis using assms
    by (auto simp: copy_inplace_def split: prod.splits dest!: save_item_self
        dest: ownership_cong)
next
  case (Call_getitem i)
  then show ?thesis using assms
    by (auto split: prod.splits dest!: getitem_self dest: ownership_cong)
next
  case (Call_setitem i v)
  then show ?thesis using assms
    by (auto split: prod.splits dest!: setitem_self dest: ownership_cong)
next
  case (Call_eq v)
  then show ?thesis using assms
    by (auto split: prod.splits dest!: eq_self dest: ownership_cong)
next
  case (Call_set_transfer v)
  then show ?thesis using assms
    by (cases v)
       (auto simp: set_transfer_ownership_def owns_file_def not_owns_file_def
        split: option.splits)
next
  case Call_reduce
  then show ?thesis
    using assms reduce_not_owned [of m] reduce_owned [of m]
    by (cases "transfer_ownership m") auto
next
  case Call_getstate
  then show ?thesis using assms
    by (auto simp: getstate_def owns_file_def not_owns_file_def split: option.splits)
next
  case Call_clone
  then show ?thesis using assms
    by (auto simp: clone_def split: prod.splits pyval.splits dest!: init_memmap_source
        dest: ownership_cong)
qed

lemma calls_ownership_state:
  "owns_file m \<or> not_owns_file m \<Longrightarrow>
   owns_file (fst (calls E D cs (m, w))) \<or> not_owns_file (fst (calls E D cs (m, w)))"
proof (induction cs arbitrary: m w)
  case Nil
  then show ?case by simp
next
  case (Cons c cs)
  obtain m' w' where c: "call E D c (m, w) = (m', w')" by (cases "call E D c (m, w)") auto
  with call_ownership_state [OF Cons.prems, of E D c w]
  have "owns_file m' \<or> not_owns_file m'" by simp
  from Cons.IH [OF this] c show ?case by simp
qed

lemma live_cong:
  assumes "m'\<lparr>memmap_array := None\<rparr> = m\<lparr>memmap_array := None\<rparr>" and "live_file m"
  shows "live_file m'"
  using assms(2) attrs_kept(1,2) [OF assms(1)]
  by (auto simp: live_file_def split: option.splits)

lemma call_live:
  assumes "live_file m"
  shows "live_file (fst (call E D c (m, w)))"
proof (cases c)
  case (Call_copy v)
  then show ?thesis using assms
    by (auto simp: copy_inplace_def split: prod.splits dest!: save_item_self intro: live_cong)
next
  case (Call_getitem i)
  then show ?thesis using assms
    by (auto split: prod.splits dest!: getitem_self intro: live_cong)
next
  case (Call_setitem i v)
  then show ?thesis using assms
    by (auto split: prod.splits dest!: setitem_self intro: live_cong)
next
  case (Call_eq v)
  then show ?thesis using assms
    by (auto split: prod.splits dest!: eq_self intro: live_cong)
next
  case (Call_set_transfer v)
  then show ?thesis using assms
    by (cases v) (auto simp: set_transfer_ownership_def live_file_def split: option.splits)
next
  case Call_reduce
  then show ?thesis using reduce_live [OF assms] by simp
next
  case Call_getstate
  then show ?thesis using assms
    by (auto simp: getstate_def live_file_def split: option.splits)
next
  case Call_clone
  then show ?thesis using assms
    by (auto simp: clone_def split: prod.splits pyval.splits dest!: init_memmap_source
        intro: live_cong)
qed

lemma calls_live:
  "live_file m \<Longrightarrow> live_file (fst (calls E D cs (m, w)))"
proof (induction cs arbitrary: m w)
  case Nil
  then show ?case by simp
next
  case (Cons c cs)
  obtain m' w' where c: "call E D c (m, w) = (m', w')" by (cases "call E D c (m, w)") auto
  with call_live [OF Cons.prems, of E D c w] have "live_file m'" by simp
  from Cons.IH [OF this] c show ?case by simp
qed

subsection \<open>Reading\<close>

lemma numpy_of_torch_inverse: "numpy_of_torch (torch_of_numpy nd) = Some nd"
  by (cases nd) auto

lemma get_memmap_array_mapped:
  assumes "mapped m w"
  shows "get_memmap_array D m w = (Inr (the (memmap_array m)), m, w)"
  using assms by (auto simp: mapped_def get_memmap_array_def split: option.splits)

lemma load_item_mapped:
  assumes "mapped m w"
  shows "load_item D m None None w
           = (Inr (as_tensor w (mm_view (the (memmap_array m))) (device m)), m, w)"
  using assms by (simp add: load_item_def get_memmap_array_mapped np_to_tensor_def)

lemma materialize_mapped:
  assumes "mapped m w"
  shows "materialize D m w =
           Inr \<lparr>t_data = take (prod_list (np_shape m)) (content w (filename m)),
                t_shape = np_shape m, t_dtype = dtype m, t_device = device m,
                requires_grad = False\<rparr>"
  using assms
  by (auto simp: materialize_def load_item_mapped as_tensor_def tensor_value_def view_read_def
      mapped_def split: option.splits)

lemma materialize_wf:
  assumes "mapped m w" and "materialize D m w = Inr t"
  shows "wf_tensor t"
  using assms
  by (auto simp: materialize_mapped wf_tensor_def mapped_def split: option.splits)

lemma view_write_read:
  assumes "v_offset v + length xs \<le> length (content w (v_file v))"
    and "length xs = prod_list (v_shape v)"
  shows "view_read (view_write v xs w) v = xs"
  using assms by (simp add: view_read_def view_write_def Let_def)

lemma index_view_bound:
  assumes "index_view v i = Inr s"
  shows "v_file s = v_file v \<and> v_dtype s = v_dtype v \<and> v_offset v \<le> v_offset s
         \<and> v_offset s + prod_list (v_shape s) \<le> v_offset v + prod_list (v_shape v)"
proof (cases "v_shape v")
  case Nil
  with assms show ?thesis by (simp add: index_view_def)
next
  case (Cons d ds)
  show ?thesis
  proof (cases i)
    case Slice_all
    with assms Cons show ?thesis by (auto simp: index_view_def)
  next
    case (Int_idx k)
    define j where "j = nat (if k < 0 then k + int d else k)"
    from assms Cons Int_idx have rng: "- int d \<le> k \<and> k < int d"
      by (auto simp: index_view_def split: if_splits)
    then have "j < d" by (auto simp: j_def)
    then have "Suc j \<le> d" by simp
    then have "Suc j * prod_list ds \<le> d * prod_list ds" by (rule mult_le_mono1)
    then have le: "j * prod_list ds + prod_list ds \<le> d * prod_list ds" by simp
    from assms Cons Int_idx rng
    have s: "s = v\<lparr>v_offset := v_offset v + j * prod_list ds, v_shape := ds\<rparr>"
      by (auto simp: index_view_def j_def)
    show ?thesis using le Cons by (simp add: s)
  qed
qed

text \<open>Indexing commutes with reading.\<close>

lemma index_tensor_of_view:
  assumes "index_view v i = Inr s"
    and "v_offset v + prod_list (v_shape v) \<le> length (content w (v_file v))"
  shows "index_tensor \<lparr>t_data = view_read w v, t_shape = v_shape v, t_dtype = dt,
                       t_device = dev, requires_grad = g\<rparr> i
         = Inr \<lparr>t_data = view_read w s, t_shape = v_shape s, t_dtype = dt,
                t_device = dev, requires_grad = g\<rparr>"
proof (cases "v_shape v")
  case Nil
  with assms show ?thesis by (simp add: index_view_def)
next
  case (Cons d ds)
  show ?thesis
  proof (cases i)
    case Slice_all
    with assms Cons show ?thesis by (auto simp: index_view_def index_tensor_def)
  next
    case (Int_idx k)
    define j where "j = nat (if k < 0 then k + int d else k)"
    from assms Cons Int_idx have rng: "- int d \<le> k \<and> k < int d"
      by (auto simp: index_view_def split: if_splits)
    then have "j < d" by (auto simp: j_def)
    then have "Suc j \<le> d" by simp
    then have "Suc j * prod_list ds \<le> d * prod_list ds" by (rule mult_le_mono1)
    then have le: "j * prod_list ds + prod_list ds \<le> d * prod_list ds" by simp
    from assms Cons Int_idx rng
    have s: "s = v\<lparr>v_offset := v_offset v + j * prod_list ds, v_shape := ds\<rparr>"
      by (auto simp: index_view_def j_def)
    have "take (prod_list ds) (drop (j * prod_list ds)
            (take (d * prod_list ds) (drop (v_offset v) (content w (v_file v)))))
          = take (prod_list ds) (drop (v_offset v + j * prod_list ds) (content w (v_file v)))"
      using le by (simp add: drop_take add.commute min_def)
    then show ?thesis
      using Cons Int_idx rng by (simp add: index_tensor_def view_read_def s j_def)
  qed
qed

lemma index_view_error:
  assumes "index_view v i = Inl e"
  shows "index_tensor \<lparr>t_data = xs, t_shape = v_shape v, t_dtype = dt,
                       t_device = dev, requires_grad = g\<rparr> i = Inl e"
  using assms
  by (auto simp: index_view_def index_tensor_def split: list.splits index.splits if_splits)

lemma read_item_mapped:
  assumes "mapped m w"
  shows "read_item D m i w =
           index_tensor \<lparr>t_data = take (prod_list (np_shape m)) (content w (filename m)),
                         t_shape = np_shape m, t_dtype = dtype m, t_device = device m,
                         requires_grad = False\<rparr> i"
proof -
  obtain mm where mm: "memmap_array m = Some mm"
    using assms by (auto simp: mapped_def split: option.splits)
  let ?v = "mm_view mm"
  have v: "v_file ?v = filename m" "v_offset ?v = 0" "v_shape ?v = np_shape m"
    "torch_of_numpy (v_dtype ?v) = dtype m"
    "v_offset ?v + prod_list (v_shape ?v) \<le> length (content w (v_file ?v))"
    using assms mm by (auto simp: mapped_def)
  have rd: "view_read w ?v = take (prod_list (np_shape m)) (content w (filename m))"
    using v by (simp add: view_read_def)
  show ?thesis
  proof (cases "index_view ?v i")
    case (Inl e)
    from index_view_error [OF Inl] v(3) have
      "index_tensor \<lparr>t_data = take (prod_list (np_shape m)) (content w (filename m)),
                         t_shape = np_shape m, t_dtype = dtype m, t_device = device m,
                         requires_grad = False\<rparr> i = Inl e" by simp
    moreover have "read_item D m i w = Inl e"
      using Inl mm index_view_error [OF Inl, of "view_read w ?v"] v(3)
      by (auto simp: read_item_def getitem_def load_item_mapped [OF assms] as_tensor_def
          tensor_getitem_def)
    ultimately show ?thesis by simp
  next
    case (Inr s)
    note it = index_tensor_of_view [OF Inr v(5), of "dtype m" "device m" False]
    have ds: "v_dtype s = v_dtype ?v" using index_view_bound [OF Inr] by simp
    have "read_item D m i w = Inr \<lparr>t_data = view_read w s, t_shape = v_shape s, t_dtype = dtype m,
                t_device = device m, requires_grad = False\<rparr>"
      using Inr mm it v ds
      by (auto simp: read_item_def getitem_def load_item_mapped [OF assms] as_tensor_def
          tensor_getitem_def tensor_value_def)
    with it rd v(3) show ?thesis by simp
  qed
qed

subsection \<open>Writing\<close>

lemma copy_mapped:
  assumes "mapped m w" and "np_shape m \<noteq> []"
    and "\<not> requires_grad t" and "wf_tensor t"
    and "t_shape t = np_shape m" and "t_dtype t = dtype m"
  shows "copy_inplace D m (PTensor t) w
           = (Inr (), m, w\<lparr>content := (content w)
                 (filename m := t_data t @ drop (length (t_data t)) (content w (filename m)))\<rparr>)"
proof -
  obtain mm where mm: "memmap_array m = Some mm"
    using assms(1) by (auto simp: mapped_def split: option.splits)
  have v: "v_file (mm_view mm) = filename m" "v_offset (mm_view mm) = 0"
    "v_shape (mm_view mm) = np_shape m" "torch_of_numpy (v_dtype (mm_view mm)) = dtype m"
    "mm_mode mm = Mode_rplus"
    using assms(1) mm by (auto simp: mapped_def)
  have nd: "numpy_of_torch (t_dtype t) = Some (v_dtype (mm_view mm))"
    using v(4) assms(6) numpy_of_torch_inverse [of "v_dtype (mm_view mm)"] by simp
  obtain d ds where sh: "np_shape m = d # ds"
    using assms(2) by (cases "np_shape m") auto
  show ?thesis
    using assms mm v nd sh
    by (simp add: copy_inplace_def save_item_def tensor_numpy_def get_memmap_array_mapped
        ndarray_setitem_def index_view_def view_write_def wf_tensor_def Let_def)
qed

lemma copy_then_read:
  assumes "mapped m w" and "np_shape m \<noteq> []"
    and "\<not> requires_grad t" and "wf_tensor t"
    and "t_shape t = np_shape m" and "t_dtype t = dtype m"
    and "copy_inplace D m (PTensor t) w = (r, m', w')"
  shows "r = Inr () \<and> m' = m \<and> mapped m w'
         \<and> read_item D m i w' = index_tensor (t\<lparr>t_device := device m\<rparr>) i"
proof -
  note c = copy_mapped [OF assms(1-6), of D]
  with assms(7) have r: "r = Inr ()" "m' = m"
    and w': "w' = w\<lparr>content := (content w)
                 (filename m := t_data t @ drop (length (t_data t)) (content w (filename m)))\<rparr>"
    by auto
  have len: "length (t_data t) = prod_list (np_shape m)"
    using assms(4,5) by (simp add: wf_tensor_def)
  have mp: "mapped m w'"
    using assms(1) len by (auto simp: mapped_def w' split: option.splits)
  have "\<lparr>t_data = take (prod_list (np_shape m)) (content w' (filename m)),
                         t_shape = np_shape m, t_dtype = dtype m, t_device = device m,
                         requires_grad = False\<rparr> = t\<lparr>t_device := device m\<rparr>"
    using assms(3,5,6) len by (intro tensor.equality) (simp_all add: w')
  with read_item_mapped [OF mp, of D i] r mp show ?thesis by simp
qed

lemma setitem_mapped_cpu:
  assumes "mapped m w" and "device m = CPU"
    and "index_view (mm_view (the (memmap_array m))) i = Inr s"
    and "t_shape val = v_shape s" and "t_dtype val = dtype m" and "t_device val = CPU"
    and "wf_tensor val"
  shows "setitem D m i val w = (Inr (), m, view_write s (t_data val) w)"
proof -
  obtain mm where mm: "memmap_array m = Some mm"
    using assms(1) by (auto simp: mapped_def split: option.splits)
  have "torch_of_numpy (v_dtype s) = dtype m"
    using index_view_bound [OF assms(3)] assms(1) mm by (auto simp: mapped_def)
  then show ?thesis
    using assms mm
    by (simp add: setitem_def load_item_mapped as_tensor_def tensor_setitem_def)
qed

lemma setitem_then_read_cpu:
  assumes "mapped m w" and "device m = CPU"
    and "index_view (mm_view (the (memmap_array m))) i = Inr s"
    and "t_shape val = v_shape s" and "t_dtype val = dtype m" and "t_device val = CPU"
    and "wf_tensor val" and "\<not> requires_grad val"
    and "setitem D m i val w = (r, m', w')"
  shows "r = Inr () \<and> m' = m \<and> mapped m w' \<and> read_item D m i w' = Inr val"
proof -
  obtain mm where mm: "memmap_array m = Some mm"
    using assms(1) by (auto simp: mapped_def split: option.splits)
  have b: "v_file s = filename m" "v_dtype s = v_dtype (mm_view mm)"
      "v_offset s + prod_list (v_shape s) \<le> length (content w (filename m))"
    using index_view_bound [OF assms(3)] assms(1) mm by (auto simp: mapped_def)
  have dt: "torch_of_numpy (v_dtype s) = dtype m"
    using b assms(1) mm by (auto simp: mapped_def)
  from setitem_mapped_cpu [OF assms(1-7), of D] assms(9)
  have r: "r = Inr ()" "m' = m" and w': "w' = view_write s (t_data val) w" by simp_all
  have mp: "mapped m w'"
    using assms(1) mm b assms(4,7)
    by (auto simp: mapped_def w' view_write_def Let_def wf_tensor_def)
  have rd: "view_read w' s = t_data val"
    unfolding w' using b assms(4,7)
    by (intro view_write_read) (auto simp: wf_tensor_def)
  have "getitem D m i w' = (Inr (Mapped s), m, w')"
    using assms mm by (simp add: getitem_def load_item_mapped [OF mp] as_tensor_def tensor_getitem_def)
  moreover have "tensor_value w' (Mapped s) = val"
    using rd assms dt by (intro tensor.equality) (simp_all add: tensor_value_def)
  ultimately show ?thesis using r mp by (simp add: read_item_def)
qed

text \<open>Off the CPU the indexed write never reaches the file.\<close>

lemma setitem_off_cpu:
  assumes "mapped m w" and "device m \<noteq> CPU"
  shows "snd (setitem D m i val w) = (m, w)"
  using assms
  by (auto simp: setitem_def load_item_mapped as_tensor_def tensor_setitem_def
      split: sum.splits)

lemma setitem_frame:
  assumes "mapped m w" and "setitem D m i val w = (r, m', w')"
  shows "m' = m \<and> present w' = present w \<and> next_tmp w' = next_tmp w
         \<and> (\<forall>p. p \<noteq> filename m \<longrightarrow> content w' p = content w p)"
proof -
  obtain mm where mm: "memmap_array m = Some mm"
    using assms(1) by (auto simp: mapped_def split: option.splits)
  have f: "v_file (mm_view mm) = filename m" using assms(1) mm by (auto simp: mapped_def)
  have "index_view (mm_view mm) i = Inr s \<Longrightarrow> v_file s = filename m" for s
    using index_view_bound [of "mm_view mm" i s] f by simp
  then show ?thesis
    using assms mm
    by (auto simp: setitem_def load_item_mapped as_tensor_def tensor_setitem_def view_write_def
        Let_def split: sum.splits if_splits)
qed

lemma copy_frame:
  assumes "mapped m w" and "copy_inplace D m v w = (r, m', w')"
  shows "m' = m \<and> present w' = present w \<and> next_tmp w' = next_tmp w
         \<and> (\<forall>p. p \<noteq> filename m \<longrightarrow> content w' p = content w p)"
proof -
  obtain mm where mm: "memmap_array m = Some mm"
    using assms(1) by (auto simp: mapped_def split: option.splits)
  have f: "v_file (mm_view mm) = filename m" using assms(1) mm by (auto simp: mapped_def)
  have "index_view (mm_view mm) i = Inr s \<Longrightarrow> v_file s = filename m" for s i
    using index_view_bound [of "mm_view mm" i s] f by simp
  then show ?thesis
    using assms mm
    by (auto simp: copy_inplace_def save_item_def get_memmap_array_mapped ndarray_setitem_def
        view_write_def Let_def split: sum.splits if_splits pyval.splits)
qed

subsection \<open>Cloning\<close>

lemma requires_grad_not_memmap_attr: "''requires_grad'' \<notin> set memmap_dir"
  by (simp add: memmap_dir_def)

lemma requires_grad_tensor_attr: "''requires_grad'' \<in> set torch_tensor_dir"
  by (simp add: torch_tensor_dir_def)

lemma getattr_requires_grad:
  assumes "mapped m w" and "''requires_grad'' \<in> set (tensor_dir m)"
  shows "getattr D m ''requires_grad'' w
           = (Inr (as_tensor w (mm_view (the (memmap_array m))) (device m)), m, w)"
  using assms requires_grad_not_memmap_attr
  by (simp add: getattr_def tensor_prop_def load_item_mapped)

lemma as_tensor_no_grad: "\<not> requires_grad (tensor_value w (as_tensor w v dev))"
  by (simp add: as_tensor_def tensor_value_def)

lemma clone_mapped:
  assumes "mapped m w" and "''requires_grad'' \<in> set (tensor_dir m)"
    and "memmap_array m = Some mm" and "D (dtype m) = Some (v_dtype (mm_view mm))"
    and "shape m = np_shape m" and "np_shape m \<noteq> []" and "prod_list (np_shape m) \<noteq> 0"
    and "filename m \<in> present w" and "filename m \<noteq> next_tmp w"
    and "mm_id mm \<noteq> Suc (next_obj w)"
  shows "clone D m w =
           (Inr ((init_attrs \<lparr>tf_name = next_tmp w, tf_delete = True, closer_name = next_tmp w,
                               closer_delete = True, close_called = False\<rparr>
                    (device m) (shape m) False (dtype m) memmap_dir (ndim m) (numel m))
                 \<lparr>memmap_array := Some \<lparr>mm_id = Suc (next_obj w), mm_mode = Mode_rplus,
                     mm_view = \<lparr>v_file = next_tmp w, v_offset = 0, v_shape = np_shape m,
                                v_dtype = v_dtype (mm_view mm)\<rparr>\<rparr>\<rparr>),
            PMemmap m,
            w\<lparr>present := insert (next_tmp w) (present w),
               content := (content w)
                 (next_tmp w := take (prod_list (np_shape m)) (content w (filename m))),
               next_tmp := Suc (next_tmp w), next_obj := Suc (Suc (next_obj w))\<rparr>)"
proof -
  have len: "prod_list (np_shape m) \<le> length (content w (filename m))"
    using assms(1,3) by (simp add: mapped_def)
  obtain d ds where sh: "np_shape m = d # ds"
    using assms(6) by (cases "np_shape m") auto
  let ?f = "\<lparr>tf_name = next_tmp w, tf_delete = True, closer_name = next_tmp w,
             closer_delete = True, close_called = False\<rparr>"
  let ?self = "init_attrs ?f (device m) (shape m) False (dtype m) memmap_dir (ndim m) (numel m)"
  let ?w2 = "w\<lparr>present := insert (next_tmp w) (present w),
               content := (content w)(next_tmp w := []), next_tmp := Suc (next_tmp w)\<rparr>"
  let ?c = "?self\<lparr>memmap_array := Some \<lparr>mm_id = Suc (next_obj w), mm_mode = Mode_rplus,
                     mm_view = \<lparr>v_file = next_tmp w, v_offset = 0, v_shape = np_shape m,
                                v_dtype = v_dtype (mm_view mm)\<rparr>\<rparr>\<rparr>"
  let ?w3 = "w\<lparr>present := insert (next_tmp w) (present w),
               content := (content w)
                 (next_tmp w := take (prod_list (np_shape m)) (content w (filename m))),
               next_tmp := Suc (next_tmp w), next_obj := Suc (Suc (next_obj w))\<rparr>"
  have ci: "copy_item D ?self (filename m) ?w2 = (Inr (), ?c, ?w3)"
    using assms(3-10) len sh
    by (simp add: copy_item_def init_attrs_def np_memmap_open_def get_memmap_array_def
        ndarray_setitem_def index_view_def view_write_def view_read_def Let_def)
  have g1: "get_memmap_array D ?c ?w3 = (Inr (the (memmap_array ?c)), ?c, ?w3)"
    by (simp add: get_memmap_array_def)
  have g2: "get_memmap_array D m ?w3 = (Inr mm, m, ?w3)"
    using assms(3) by (simp add: get_memmap_array_def)
  show ?thesis
    using assms(10)
    by (simp add: clone_def init_def getattr_requires_grad [OF assms(1,2)] as_tensor_no_grad
        NamedTemporaryFile_def Let_def ci g1 g2 ndimension_def)
qed

subsection \<open>Handles built by the constructor\<close>

text \<open>
  The constructor fails on every tensor of no dimension: line 161 indexes the mapped
  array with \<^verbatim>\<open>[:]\<close>.
\<close>

lemma init_zero_dim:
  assumes "supported D x" and "\<not> requires_grad x" and "t_shape x = []"
  shows "fst (init D (PTensor x) t_own w) = Inl IndexError"
proof -
  from assms obtain nd where nd: "numpy_of_torch (t_dtype x) = Some nd" "D (t_dtype x) = Some nd"
    by (auto simp: supported_def)
  show ?thesis
    using assms(2,3) nd
    by (simp add: init_def NamedTemporaryFile_def save_item_def tensor_numpy_def
        get_memmap_array_def init_attrs_def np_memmap_open_def ndarray_setitem_def index_view_def
        Let_def)
qed

lemma init_tensor_constructed:
  assumes "supported D x" and "\<not> requires_grad x" and "t_shape x \<noteq> []"
  shows "case init D (PTensor x) t_own w of
           (Inr m, e, w') \<Rightarrow>
             (prod_list (t_shape x) \<noteq> 0 \<longrightarrow> constructed_in D m w')
             \<and> ''requires_grad'' \<in> set (tensor_dir m)
             \<and> filename m = next_tmp w \<and> device m = t_device x \<and> materialize D m w' = Inr x
         | (Inl err, e, w') \<Rightarrow> False"
proof -
  from assms obtain nd where nd: "numpy_of_torch (t_dtype x) = Some nd" "D (t_dtype x) = Some nd"
    by (auto simp: supported_def)
  have wf: "length (t_data x) = prod_list (t_shape x)"
    using assms by (simp add: supported_def wf_tensor_def)
  have i: "init D (PTensor x) t_own w =
           (Inr ((init_attrs \<lparr>tf_name = next_tmp w, tf_delete = True, closer_name = next_tmp w,
                               closer_delete = True, close_called = False\<rparr>
                    (t_device x) (t_shape x) t_own (t_dtype x) torch_tensor_dir
                    (length (t_shape x)) (prod_list (t_shape x)))
                 \<lparr>memmap_array := Some \<lparr>mm_id = next_obj w, mm_mode = Mode_rplus,
                     mm_view = \<lparr>v_file = next_tmp w, v_offset = 0, v_shape = t_shape x,
                                v_dtype = nd\<rparr>\<rparr>\<rparr>),
            PTensor x,
            w\<lparr>present := insert (next_tmp w) (present w),
               content := (content w)(next_tmp w := t_data x),
               next_tmp := Suc (next_tmp w), next_obj := Suc (next_obj w)\<rparr>)"
    (is "_ = (Inr ?m, _, ?w)")
    using assms nd by (intro init_tensor) (auto simp: supported_def)
  have mp: "mapped ?m ?w"
    using wf torch_of_numpy_inverse [OF nd(1)] by (simp add: mapped_def init_attrs_def)
  have c: "constructed_in D ?m ?w" if "prod_list (t_shape x) \<noteq> 0"
    using mp assms(3) nd that by (simp add: constructed_in_def init_attrs_def)
  have "\<lparr>t_data = take (prod_list (np_shape ?m)) (content ?w (filename ?m)),
                t_shape = np_shape ?m, t_dtype = dtype ?m, t_device = device ?m,
                requires_grad = False\<rparr> = x"
    using wf assms(2) by (intro tensor.equality) (simp_all add: init_attrs_def)
  with materialize_mapped [OF mp, of D] have mt: "materialize D ?m ?w = Inr x" by simp
  show ?thesis
    using c mt requires_grad_tensor_attr by (simp add: i) (simp add: init_attrs_def)
qed

text \<open>A tensor of no elements is stored and read back.\<close>

lemma init_empty_example:
  "case init numpy_of_torch (PTensor x_empty) False w0 of
     (Inr m, e, w') \<Rightarrow> materialize numpy_of_torch m w' = Inr x_empty
   | (Inl err, e, w') \<Rightarrow> False"
proof -
  have s: "supported numpy_of_torch x_empty" "\<not> requires_grad x_empty" "t_shape x_empty \<noteq> []"
    by (simp_all add: supported_def wf_tensor_def x_empty_def)
  show ?thesis
    using init_tensor_constructed [where t_own = False and w = w0, OF s]
    by (auto split: prod.splits sum.splits)
qed

lemma clone_constructed:
  assumes "constructed_in D m w" and "''requires_grad'' \<in> set (tensor_dir m)"
  shows "case clone D m w of
           (Inr c, e, w') \<Rightarrow>
             e = PMemmap m \<and> constructed_in D c w' \<and> constructed_in D m w'
             \<and> filename c \<noteq> filename m \<and> materialize D c w' = materialize D m w'
             \<and> materialize D m w' = materialize D m w
             \<and> owns_file c \<and> live_file c \<and> \<not> transfer_ownership c
             \<and> ''requires_grad'' \<notin> set (tensor_dir c)
         | (Inl err, e, w') \<Rightarrow> False"
proof -
  from assms(1) obtain mm where mm: "memmap_array m = Some mm"
    by (auto simp: constructed_in_def split: option.splits)
  from assms(1) mm have h: "mapped m w" "D (dtype m) = Some (v_dtype (mm_view mm))"
    "shape m = np_shape m" "np_shape m \<noteq> []" "prod_list (np_shape m) \<noteq> 0"
    "filename m \<in> present w" "filename m \<noteq> next_tmp w" "mm_id mm \<noteq> Suc (next_obj w)"
    "filename m < next_tmp w" "mm_id mm < next_obj w"
    by (auto simp: constructed_in_def)
  note cl = clone_mapped [where D = D and m = m and w = w and mm = mm, OF h(1) assms(2) mm h(2-8)]
  let ?c = "(init_attrs \<lparr>tf_name = next_tmp w, tf_delete = True, closer_name = next_tmp w,
                               closer_delete = True, close_called = False\<rparr>
                    (device m) (shape m) False (dtype m) memmap_dir (ndim m) (numel m))
                 \<lparr>memmap_array := Some \<lparr>mm_id = Suc (next_obj w), mm_mode = Mode_rplus,
                     mm_view = \<lparr>v_file = next_tmp w, v_offset = 0, v_shape = np_shape m,
                                v_dtype = v_dtype (mm_view mm)\<rparr>\<rparr>\<rparr>"
  let ?w = "w\<lparr>present := insert (next_tmp w) (present w),
               content := (content w)
                 (next_tmp w := take (prod_list (np_shape m)) (content w (filename m))),
               next_tmp := Suc (next_tmp w), next_obj := Suc (Suc (next_obj w))\<rparr>"
  have len: "prod_list (np_shape m) \<le> length (content w (filename m))"
    and dt: "torch_of_numpy (v_dtype (mm_view mm)) = dtype m"
    using h(1) mm by (simp_all add: mapped_def)
  have mc: "mapped ?c ?w"
    using len dt h(3) by (simp add: mapped_def init_attrs_def)
  have mm': "mapped m ?w"
    using h(1,7) mm by (simp add: mapped_def)
  have cc: "constructed_in D ?c ?w"
    using mc h(2,3,4,5) by (simp add: constructed_in_def init_attrs_def)
  have cm: "constructed_in D m ?w"
    using mm' mm h by (simp add: constructed_in_def)
  have e1: "materialize D ?c ?w = materialize D m ?w"
    using h(3,7) len
    by (subst materialize_mapped [OF mc], subst materialize_mapped [OF mm'])
       (simp add: init_attrs_def)
  have e2: "materialize D m ?w = materialize D m w"
    using h(7) by (simp add: materialize_mapped [OF h(1)] materialize_mapped [OF mm'])
  have o: "owns_file ?c" "live_file ?c" "\<not> transfer_ownership ?c" "filename ?c \<noteq> filename m"
    "tensor_dir ?c = memmap_dir"
    using h(7) by (simp_all add: owns_file_def live_file_def init_attrs_def)
  show ?thesis
    unfolding cl using cc cm e1 e2 o requires_grad_not_memmap_attr by simp
qed

lemma clone_without_attribute:
  assumes "''requires_grad'' \<notin> set (tensor_dir m)"
  shows "clone D m w = (Inl AttributeError, PMemmap m, w)"
  using assms requires_grad_not_memmap_attr
  by (simp add: clone_def init_def getattr_def)

lemma other_handle_unchanged:
  assumes "mapped a w" and "mapped b w" and "filename a \<noteq> filename b"
    and "setitem D a i v w = (r, a', w') \<or> copy_inplace D a u w = (r, a', w')"
  shows "mapped b w' \<and> materialize D b w' = materialize D b w
         \<and> read_item D b j w' = read_item D b j w"
proof -
  from assms(4) setitem_frame [OF assms(1), of D i v r a' w'] copy_frame [OF assms(1), of D u r a' w']
  have f: "\<forall>p. p \<noteq> filename a \<longrightarrow> content w' p = content w p" by blast
  with assms(3) have c: "content w' (filename b) = content w (filename b)" by simp
  with assms(2) have mb: "mapped b w'" by (auto simp: mapped_def split: option.splits)
  show ?thesis
    using mb c
    by (simp add: materialize_mapped [OF mb] materialize_mapped [OF assms(2)]
        read_item_mapped [OF mb] read_item_mapped [OF assms(2)])
qed

lemma del_not_owned:
  assumes "not_owns_file m"
  shows "present (del m w) = present w"
  using assms
  by (auto simp: not_owns_file_def del_def tmpfile_close_def split: option.splits)

section \<open>The claims\<close>

text \<open>
  Claim C1. Take a handle that owns its file. With \<open>transfer_ownership\<close> set,
  serializing it (\<^verbatim>\<open>__reduce__\<close>) and deserializing the captured state
  (\<^verbatim>\<open>__setstate__\<close>) gives a handle that owns the file, and the original no longer owns
  it. With \<open>transfer_ownership\<close> unset the original is unchanged and owns the file, and
  the deserialized handle does not. On a captured state \<^verbatim>\<open>__setstate__\<close> sets
  \<^verbatim>\<open>_has_ownership\<close> and both delete flags of the new temporary file, which carries the
  file name of the state, to \<open>transfer_ownership \<and> has_ownership\<close> of the state.
\<close>

theorem C1_transfer:
  assumes "owns_file m"
  shows "(transfer_ownership m \<longrightarrow>
            (case reduce m of
               (Inr st, m') \<Rightarrow> not_owns_file m' \<and> owns_file (fst (setstate st w))
             | (Inl e, m') \<Rightarrow> False))
       \<and> (\<not> transfer_ownership m \<longrightarrow>
            (case reduce m of
               (Inr st, m') \<Rightarrow> m' = m \<and> owns_file m' \<and> not_owns_file (fst (setstate st w))
             | (Inl e, m') \<Rightarrow> False))
       \<and> (file_obj st = None \<longrightarrow>
            has_ownership (fst (setstate st w)) = (transfer_ownership st \<and> has_ownership st)
            \<and> map_option tf_delete (file_obj (fst (setstate st w)))
                = Some (transfer_ownership st \<and> has_ownership st)
            \<and> map_option closer_delete (file_obj (fst (setstate st w)))
                = Some (transfer_ownership st \<and> has_ownership st)
            \<and> map_option closer_name (file_obj (fst (setstate st w))) = Some (filename st))"
  using assms
  by (auto simp: owns_file_def not_owns_file_def reduce_def getstate_def setstate_def
      NamedTemporaryFile_def Let_def split: option.splits)

theorem C1_transfer_witness:
  "owns_file (example_handle True) \<and> transfer_ownership (example_handle True)
   \<and> (case reduce (example_handle True) of
         (Inr st, m') \<Rightarrow> not_owns_file m' \<and> owns_file (fst (setstate st w1))
       | (Inl e, m') \<Rightarrow> False)
   \<and> owns_file (example_handle False) \<and> \<not> transfer_ownership (example_handle False)
   \<and> (case reduce (example_handle False) of
         (Inr st, m') \<Rightarrow> m' = example_handle False \<and> owns_file m'
                          \<and> not_owns_file (fst (setstate st w1))
       | (Inl e, m') \<Rightarrow> False)
   \<and> file_obj ((example_handle True)\<lparr>file_obj := None, memmap_array := None\<rparr>) = None
   \<and> has_ownership (fst (setstate ((example_handle True)\<lparr>file_obj := None, memmap_array := None\<rparr>) w1))
   \<and> map_option closer_delete
         (file_obj (fst (setstate ((example_handle True)\<lparr>file_obj := None, memmap_array := None\<rparr>) w1)))
       = Some True"
proof -
  have t: "transfer_ownership (example_handle True)" "\<not> transfer_ownership (example_handle False)"
    "has_ownership (example_handle True)"
    by (simp_all add: example_handle_def init_attrs_def)
  show ?thesis
    using t owns_example [of True] owns_example [of False]
      C1_transfer [OF owns_example [of True], of w1
        "(example_handle True)\<lparr>file_obj := None, memmap_array := None\<rparr>"]
      C1_transfer [OF owns_example [of False], of w1 "example_handle True"]
    by simp
qed

text \<open>
  Claim C2 (the code falls short of it). \<^verbatim>\<open>copy_\<close> followed by a read returns what was
  written, on every device (lemma \<open>copy_then_read\<close>), and so does an indexed write on a
  handle whose device is the CPU (lemma \<open>setitem_then_read_cpu\<close>). On any other device
  \<^verbatim>\<open>_load_item()\<close> returns a copy of the mapped array, \<^verbatim>\<open>__setitem__\<close> writes into that
  copy, and the file keeps its content (lemma \<open>setitem_off_cpu\<close>). Here: a handle built
  from a 2 by 3 tensor on \<^verbatim>\<open>cuda:0\<close> with rows 1 2 3 and 4 5 6; writing the row 7 8 9
  at index 0 succeeds, and reading index 0 still gives 1 2 3.
\<close>

theorem C2_setitem_lost_off_cpu:
  "case init numpy_of_torch (PTensor x_cuda) False w0 of
     (Inr m, e, w) \<Rightarrow>
       (case setitem numpy_of_torch m (Int_idx 0) (row (CUDA 0)) w of
          (Inr u, m', w') \<Rightarrow>
            read_item numpy_of_torch m' (Int_idx 0) w' = Inr ((row (CUDA 0))\<lparr>t_data := [1, 2, 3]\<rparr>)
            \<and> content w' (filename m') = [1, 2, 3, 4, 5, 6]
        | (Inl err, m', w') \<Rightarrow> False)
   | (Inl err, e, w) \<Rightarrow> False"
  by code_simp

text \<open>
  Claim C3. Destroying a handle whose temporary file is open: when the handle owns the
  file, the file name is removed from the directory and no other name is; when it does
  not own the file, the directory is left as it is.
\<close>

theorem C3_del:
  assumes "live_file m"
  shows "(owns_file m \<longrightarrow> present (del m w) = present w - {filename m})
       \<and> (not_owns_file m \<longrightarrow> present (del m w) = present w)"
  using assms
  by (auto simp: live_file_def owns_file_def not_owns_file_def del_def tmpfile_close_def
      split: option.splits)

theorem C3_del_witness:
  "live_file (example_handle False) \<and> owns_file (example_handle False)
   \<and> present (del (example_handle False) (w1\<lparr>present := {0, 1}\<rparr>)) = {1}
   \<and> live_file (snd (reduce (example_handle True)))
   \<and> not_owns_file (snd (reduce (example_handle True)))
   \<and> present (del (snd (reduce (example_handle True))) (w1\<lparr>present := {0, 1}\<rparr>)) = {0, 1}"
proof -
  have l: "live_file (snd (reduce (example_handle True)))"
    by (rule reduce_live) (rule live_example)
  have t: "transfer_ownership (example_handle True)"
    by (simp add: example_handle_def init_attrs_def)
  have n: "not_owns_file (snd (reduce (example_handle True)))"
    using reduce_owned [OF owns_example, of True] t by simp
  have f: "filename (example_handle False) = 0"
    by (simp add: example_handle_def init_attrs_def)
  show ?thesis
    using C3_del [OF live_example [of False], of "w1\<lparr>present := {0, 1}\<rparr>"]
      C3_del [OF l, of "w1\<lparr>present := {0, 1}\<rparr>"] owns_example [of False]
      live_example [of False] l n f
    by auto
qed

text \<open>
  Claim C4 (the code falls short of it). For a supported tensor that does not require
  grad and has at least one dimension, also one of no elements, the constructor succeeds
  and materializing the new handle gives the tensor back: the same elements, shape,
  dtype and device (lemma \<open>init_tensor_constructed\<close>). For a tensor of no dimension
  \<^verbatim>\<open>np.memmap\<close> gives an array of no dimension, which line 161 indexes with \<^verbatim>\<open>[:]\<close>:
  the constructor raises IndexError (lemma \<open>init_zero_dim\<close>). Here: \<^verbatim>\<open>torch.tensor(5)\<close>.
\<close>

theorem C4_zero_dim_fails:
  "supported numpy_of_torch x_scalar \<and> \<not> requires_grad x_scalar
   \<and> fst (init numpy_of_torch (PTensor x_scalar) False w0) = Inl IndexError"
  by (simp add: supported_def wf_tensor_def x_scalar_def w0_def init_def NamedTemporaryFile_def
      save_item_def tensor_numpy_def get_memmap_array_def init_attrs_def np_memmap_open_def
      ndarray_setitem_def index_view_def Let_def)

text \<open>
  Claim C5 (the code falls short of it). The clone of a handle that was built from a
  tensor has a file name of its own and the same content, and a write through either
  handle leaves what the other reads (lemmas \<open>clone_constructed\<close>,
  \<open>other_handle_unchanged\<close>). But the clone records \<^verbatim>\<open>elem.__dir__()\<close> of a MemmapTensor
  as its \<^verbatim>\<open>_tensor_dir\<close>, which has no \<^verbatim>\<open>requires_grad\<close>, so that cloning the clone
  raises AttributeError at line 107 (lemma \<open>clone_without_attribute\<close>). Here: the clone
  of the clone of \<^verbatim>\<open>MemmapTensor(x_cpu)\<close>.
\<close>

theorem C5_clone_of_clone_fails:
  "case init numpy_of_torch (PTensor x_cpu) False w0 of
     (Inr m, e, w) \<Rightarrow>
       (case clone numpy_of_torch m w of
          (Inr c, e', w') \<Rightarrow>
            filename c \<noteq> filename m
            \<and> materialize numpy_of_torch c w' = Inr x_cpu
            \<and> fst (clone numpy_of_torch c w') = Inl AttributeError
        | (Inl err, e', w') \<Rightarrow> False)
   | (Inl err, e, w) \<Rightarrow> False"
  by code_simp




text \<open>
  Claim C7. The constructor raises TypeError for a source that is neither a tensor nor
  a MemmapTensor, and RuntimeError, the gradient-tracking error, for a tensor that
  requires grad. In both cases the world is returned as it was: no file has been created.
\<close>

theorem C7_init_rejects:
  "(\<not> is_tensor elem \<and> \<not> is_memmap elem \<longrightarrow> init D elem t_own w = (Inl TypeError, elem, w))
   \<and> (requires_grad t \<longrightarrow> init D (PTensor t) t_own w = (Inl RuntimeError, PTensor t, w))"
  by (cases elem) (simp_all add: init_def)

theorem C7_init_rejects_witness:
  "\<not> is_tensor (PStr ''abc'') \<and> \<not> is_memmap (PStr ''abc'')
   \<and> init numpy_of_torch (PStr ''abc'') False w0 = (Inl TypeError, PStr ''abc'', w0)
   \<and> requires_grad (x_cpu\<lparr>requires_grad := True\<rparr>)
   \<and> init numpy_of_torch (PTensor (x_cpu\<lparr>requires_grad := True\<rparr>)) False w0
       = (Inl RuntimeError, PTensor (x_cpu\<lparr>requires_grad := True\<rparr>), w0)"
  using C7_init_rejects [of "PStr ''abc''" numpy_of_torch False w0 "x_cpu\<lparr>requires_grad := True\<rparr>"]
  by simp

text \<open>
  Claim C8. On a handle with \<open>transfer_ownership\<close> set, \<^verbatim>\<open>__reduce__\<close> clears both delete
  flags of the temporary file and only then takes the state, through \<^verbatim>\<open>__getstate__\<close>;
  the handle is left with the flags cleared and \<^verbatim>\<open>_has_ownership\<close> false. Whatever
  methods are called on the handle afterwards, it stays in that state, and destroying it
  leaves the directory as it is: no \<^verbatim>\<open>__setstate__\<close> is involved. \<^verbatim>\<open>__getstate__\<close> sets
  \<^verbatim>\<open>_has_ownership\<close> of the handle to the delete flag of its file.
\<close>

theorem C8_reduce_side_effect:
  assumes "file_obj m = Some f"
  shows "(transfer_ownership m \<longrightarrow>
            reduce m = getstate (m\<lparr>file_obj := Some (f\<lparr>tf_delete := False, closer_delete := False\<rparr>)\<rparr>)
            \<and> snd (reduce m) = m\<lparr>file_obj := Some (f\<lparr>tf_delete := False, closer_delete := False\<rparr>),
                                  has_ownership := False\<rparr>
            \<and> not_owns_file (fst (calls E D cs (snd (reduce m), w)))
            \<and> present (del (fst (calls E D cs (snd (reduce m), w))) w') = present w')
       \<and> snd (getstate m) = m\<lparr>has_ownership := tf_delete f\<rparr>"
proof -
  have r: "snd (reduce m) = m\<lparr>file_obj := Some (f\<lparr>tf_delete := False, closer_delete := False\<rparr>),
                                  has_ownership := False\<rparr>"
    and g: "reduce m = getstate (m\<lparr>file_obj := Some (f\<lparr>tf_delete := False, closer_delete := False\<rparr>)\<rparr>)"
    if "transfer_ownership m"
    using assms that by (simp_all add: reduce_def getstate_def)
  have n: "not_owns_file (snd (reduce m))" if "transfer_ownership m"
    using r [OF that] by (simp add: not_owns_file_def)
  have s: "snd (getstate m) = m\<lparr>has_ownership := tf_delete f\<rparr>"
    using assms by (simp add: getstate_def)
  show ?thesis
    using r g s calls_not_owned [where E = E and D = D and cs = cs and w = w, OF n]
      del_not_owned [OF calls_not_owned [where E = E and D = D and cs = cs and w = w, OF n], of w']
    by blast
qed

theorem C8_reduce_side_effect_witness:
  "file_obj (example_handle True)
     = Some \<lparr>tf_name = 0, tf_delete = True, closer_name = 0, closer_delete = True,
             close_called = False\<rparr>
   \<and> transfer_ownership (example_handle True)
   \<and> snd (reduce (example_handle True))
       = (example_handle True)
           \<lparr>file_obj := Some \<lparr>tf_name = 0, tf_delete = False, closer_name = 0,
                               closer_delete = False, close_called = False\<rparr>,
            has_ownership := False\<rparr>
   \<and> present (del (fst (calls exact_eq numpy_of_torch
                          [Call_set_transfer (PBool False), Call_reduce, Call_getitem (Int_idx 0)]
                          (snd (reduce (example_handle True)), w1))) w1) = {0}"
proof -
  have f: "file_obj (example_handle True)
     = Some \<lparr>tf_name = 0, tf_delete = True, closer_name = 0, closer_delete = True,
             close_called = False\<rparr>"
    by (simp add: example_handle_def init_attrs_def)
  have t: "transfer_ownership (example_handle True)"
    by (simp add: example_handle_def init_attrs_def)
  have p: "present w1 = {0}" by (simp add: w1_def)
  note c = C8_reduce_side_effect [where E = exact_eq and D = numpy_of_torch
        and cs = "[Call_set_transfer (PBool False), Call_reduce, Call_getitem (Int_idx 0)]"
        and w = w1 and w' = w1, OF f]
  from c t have "snd (reduce (example_handle True))
       = (example_handle True)
           \<lparr>file_obj := Some (\<lparr>tf_name = 0, tf_delete = True, closer_name = 0,
                               closer_delete = True, close_called = False\<rparr>
                              \<lparr>tf_delete := False, closer_delete := False\<rparr>),
            has_ownership := False\<rparr>"
    by blast
  then have c1: "snd (reduce (example_handle True))
       = (example_handle True)
           \<lparr>file_obj := Some \<lparr>tf_name = 0, tf_delete = False, closer_name = 0,
                               closer_delete = False, close_called = False\<rparr>,
            has_ownership := False\<rparr>"
    by simp
  from c t have "present (del (fst (calls exact_eq numpy_of_torch
                          [Call_set_transfer (PBool False), Call_reduce, Call_getitem (Int_idx 0)]
                          (snd (reduce (example_handle True)), w1))) w1) = present w1"
    by blast
  with p have c2: "present (del (fst (calls exact_eq numpy_of_torch
                          [Call_set_transfer (PBool False), Call_reduce, Call_getitem (Int_idx 0)]
                          (snd (reduce (example_handle True)), w1))) w1) = {0}"
    by simp
  show ?thesis
    using f t c1 c2 by blast
qed

text \<open>
  Claim C9. The method \<^verbatim>\<open>set_transfer_ownership\<close> raises TypeError for a value that is
  not a Python bool and leaves the handle as it is. For a bool it sets
  \<open>transfer_ownership\<close> to that value, changes no other attribute, and returns the handle.
\<close>

theorem C9_set_transfer_ownership:
  "(\<not> is_bool v \<longrightarrow> set_transfer_ownership m v = (Inl TypeError, m))
   \<and> set_transfer_ownership m (PBool b)
       = (Inr (m\<lparr>transfer_ownership := b\<rparr>), m\<lparr>transfer_ownership := b\<rparr>)"
  by (cases v) (simp_all add: set_transfer_ownership_def)

theorem C9_set_transfer_ownership_witness:
  "\<not> is_bool (PInt 1)
   \<and> set_transfer_ownership (example_handle False) (PInt 1) = (Inl TypeError, example_handle False)
   \<and> set_transfer_ownership (example_handle False) (PBool True)
       = (Inr (example_handle True), example_handle True)"
proof -
  have "(example_handle False)\<lparr>transfer_ownership := True\<rparr> = example_handle True"
    by (simp add: example_handle_def init_attrs_def)
  then show ?thesis
    using C9_set_transfer_ownership [of "PInt 1" "example_handle False" True] by simp
qed

text \<open>
  Claim C10. The function \<^verbatim>\<open>set_transfer_ownership\<close> of the module does nothing and
  raises nothing when its first argument is not a MemmapTensor. For a MemmapTensor it
  calls the method: the handle is left as the method leaves it, and an error of the
  method is the error of the function.
\<close>

theorem C10_module_function:
  "(\<not> is_memmap memmap \<longrightarrow> set_transfer_ownership_fn memmap v = (Inr (), memmap))
   \<and> snd (set_transfer_ownership_fn (PMemmap m) v) = PMemmap (snd (set_transfer_ownership m v))
   \<and> fst (set_transfer_ownership_fn (PMemmap m) v)
       = (case fst (set_transfer_ownership m v) of Inl e \<Rightarrow> Inl e | Inr r \<Rightarrow> Inr ())"
  by (cases memmap; cases v) (simp_all add: set_transfer_ownership_fn_def set_transfer_ownership_def)

theorem C10_module_function_witness:
  "\<not> is_memmap (PStr ''m'')
   \<and> set_transfer_ownership_fn (PStr ''m'') (PInt 3) = (Inr (), PStr ''m'')
   \<and> snd (set_transfer_ownership_fn (PMemmap (example_handle False)) (PBool True))
       = PMemmap (example_handle True)
   \<and> fst (set_transfer_ownership_fn (PMemmap (example_handle False)) (PInt 3)) = Inl TypeError"
proof -
  have "(example_handle False)\<lparr>transfer_ownership := True\<rparr> = example_handle True"
    by (simp add: example_handle_def init_attrs_def)
  then show ?thesis
    using C10_module_function [of "PStr ''m''" "PInt 3" "example_handle False"]
      C10_module_function [of "PStr ''m''" "PBool True" "example_handle False"]
    by (simp add: set_transfer_ownership_def)
qed

end
